theory Spec2Isabelle
  imports Main "HOL-Library.Word"
begin

unbundle bit_operations_syntax

section \<open>Machine types, constants and errors\<close>

text \<open>
  The virtual memory manager of \<^verbatim>\<open>core/mmu.cc\<close> (stored in the repository
  snapshot as the second document of \<^verbatim>\<open>src/flake.nix\<close>). Addresses, sizes and
  file offsets are 64-bit unsigned machine words, CPU identifiers and superblock
  owners are 8-bit words, permission and flag sets are 32-bit words; all arithmetic
  wraps as in the source.
\<close>

type_synonym u8 = "8 word"
type_synonym u32 = "32 word"
type_synonym u64 = "64 word"
type_synonym uintptr_t = "64 word"

text \<open>
  Errors as values. The first four are the errno values the source builds with
  \<^verbatim>\<open>make_error\<close>; \<open>Errno\<close> carries any other errno a collaborator returns;
  \<open>Assert_failed\<close> is a failing \<^verbatim>\<open>assert\<close>; \<open>Out_of_bounds\<close> is an index
  outside a \<^verbatim>\<open>std::array\<close> or \<^verbatim>\<open>std::vector\<close> (undefined in the source).
\<close>

datatype error = ENOMEM | EINVAL | EACCES | EPERM | Errno nat | Assert_failed | Out_of_bounds

definition bind_err :: "error + 'a \<Rightarrow> ('a \<Rightarrow> error + 'b) \<Rightarrow> error + 'b" where
  "bind_err r f = (case r of Inl e \<Rightarrow> Inl e | Inr x \<Rightarrow> f x)"

text \<open>
  Modelled from the spec: the constants of \<^verbatim>\<open>osv/mmu-defs.hh\<close>, which is not
  among the sources. Section 3 of the specification fixes a 4K page and a 2 MiB huge
  page, the permission bitset \<open>{read, write, exec}\<close> and the flag bitset; each
  flag and permission is one bit.
\<close>

definition page_size :: u64 where "page_size = 4096"
definition huge_page_size :: u64 where "huge_page_size = 0x200000"

definition perm_read :: u32 where "perm_read = 1"
definition perm_write :: u32 where "perm_write = 2"
definition perm_exec :: u32 where "perm_exec = 4"

definition mmap_fixed :: u32 where "mmap_fixed = 1"
definition mmap_populate :: u32 where "mmap_populate = 2"
definition mmap_shared :: u32 where "mmap_shared = 4"
definition mmap_uninitialized :: u32 where "mmap_uninitialized = 8"
definition mmap_jvm_heap :: u32 where "mmap_jvm_heap = 16"
definition mmap_small :: u32 where "mmap_small = 32"
definition mmap_jvm_balloon :: u32 where "mmap_jvm_balloon = 64"
definition mmap_file :: u32 where "mmap_file = 128"

text \<open>
  Modelled from the spec: \<^verbatim>\<open>align_down\<close> and \<^verbatim>\<open>align_up\<close> of
  \<^verbatim>\<open>osv/align.hh\<close> (not among the sources), for a power-of-two alignment:
  clear the low bits, respectively round up first.
\<close>

definition align_down :: "u64 \<Rightarrow> u64 \<Rightarrow> u64" where
  "align_down n alignment = n AND NOT (alignment - 1)"

definition align_up :: "u64 \<Rightarrow> u64 \<Rightarrow> u64" where
  "align_up n alignment = align_down (n + alignment - 1) alignment"

text \<open>
  The address-space layout. \<^verbatim>\<open>superblock_area_base\<close>, \<^verbatim>\<open>main_mem_area_base\<close>,
  \<^verbatim>\<open>superblock_size\<close> and \<^verbatim>\<open>sched::max_cpus\<close> are declared outside the
  sources, so every function that reads them takes the layout as a parameter.
\<close>

record layout =
  superblock_area_base :: u64
  main_mem_area_base :: u64
  superblock_size :: u64
  max_cpus :: nat

definition superblock_len :: "layout \<Rightarrow> u64" where
  "superblock_len L = (main_mem_area_base L - superblock_area_base L) div superblock_size L"

definition lower_vma_limit :: uintptr_t where "lower_vma_limit = 0"
definition upper_vma_limit :: uintptr_t where "upper_vma_limit = 0x400000000000"

definition FREE :: u8 where "FREE = 255"

section \<open>The free-range map\<close>

text \<open>
  \<^verbatim>\<open>std::map<uintptr_t, u64> free_ranges\<close>: base address to length, as an
  association list kept in ascending key order with one entry per key.
\<close>

type_synonym free_map = "(uintptr_t \<times> u64) list"

text \<open>\<^verbatim>\<open>std::map::insert\<close>: an entry whose key is present is left as it is.\<close>

fun map_insert :: "uintptr_t \<Rightarrow> u64 \<Rightarrow> free_map \<Rightarrow> free_map" where
  "map_insert k v [] = [(k, v)]"
| "map_insert k v ((k', v') # m) =
     (if k < k' then (k, v) # (k', v') # m
      else if k = k' then (k', v') # m
      else (k', v') # map_insert k v m)"

text \<open>\<^verbatim>\<open>m[k] = v\<close>: overwrite, or insert when the key is absent.\<close>

fun map_assign :: "uintptr_t \<Rightarrow> u64 \<Rightarrow> free_map \<Rightarrow> free_map" where
  "map_assign k v [] = [(k, v)]"
| "map_assign k v ((k', v') # m) =
     (if k < k' then (k, v) # (k', v') # m
      else if k = k' then (k', v) # m
      else (k', v') # map_assign k v m)"

fun map_erase :: "uintptr_t \<Rightarrow> free_map \<Rightarrow> free_map" where
  "map_erase k [] = []"
| "map_erase k ((k', v') # m) = (if k = k' then m else (k', v') # map_erase k m)"

text \<open>
  \<^verbatim>\<open>prev_range\<close>: \<^verbatim>\<open>upper_bound(addr)\<close> stepped back once, that is the entry
  with the greatest key not above \<open>addr\<close>, or none.
\<close>

fun prev_range :: "uintptr_t \<Rightarrow> free_map \<Rightarrow> (uintptr_t \<times> u64) option" where
  "prev_range a [] = None"
| "prev_range a ((k, v) # m) =
     (if a < k then None
      else (case prev_range a m of None \<Rightarrow> Some (k, v) | Some e \<Rightarrow> Some e))"

text \<open>The entry following a key (\<^verbatim>\<open>std::next\<close> of its iterator), or none.\<close>

fun next_range :: "uintptr_t \<Rightarrow> free_map \<Rightarrow> (uintptr_t \<times> u64) option" where
  "next_range k [] = None"
| "next_range k ((k', v') # m) = (if k < k' then Some (k', v') else next_range k m)"

text \<open>An address is free when some interval \<open>[base, base + length)\<close> of the map holds it.\<close>

definition in_range :: "uintptr_t \<Rightarrow> uintptr_t \<times> u64 \<Rightarrow> bool" where
  "in_range x e = (fst e \<le> x \<and> x - fst e < snd e)"

definition covers :: "free_map \<Rightarrow> uintptr_t \<Rightarrow> bool" where
  "covers m x = list_ex (in_range x) m"

text \<open>
  The body of \<^verbatim>\<open>allocate_range\<close> on the owner's map. Both \<^verbatim>\<open>assert\<close>s are
  branches. In the branch for the middle or the end of a free range the source keys the
  remaining tail at \<^verbatim>\<open>addr + offset + size\<close>.
\<close>

definition allocate_range_map :: "uintptr_t \<Rightarrow> u64 \<Rightarrow> free_map \<Rightarrow> error + free_map" where
  "allocate_range_map addr sz my_free_ranges =
     (case prev_range addr my_free_ranges of
        None \<Rightarrow> Inl Assert_failed
      | Some (first, second) \<Rightarrow>
          if second < sz then Inl Assert_failed
          else if first = addr then
            (let s = second;
                 m1 = map_erase first my_free_ranges
             in Inr (if s > sz then map_insert (addr + sz) (s - sz) m1 else m1))
          else
            (let offset = addr - first;
                 s = second - offset;
                 m1 = map_assign first offset my_free_ranges
             in Inr (if s > sz then map_insert (addr + offset + sz) (s - sz) m1 else m1)))"

text \<open>
  The body of \<^verbatim>\<open>free_range\<close> on the owner's map: merge with the preceding
  interval when it ends at \<open>addr\<close>, else insert; then merge with the following
  interval when it starts at \<open>addr + sz\<close>.
\<close>

definition free_range_map :: "uintptr_t \<Rightarrow> u64 \<Rightarrow> free_map \<Rightarrow> free_map" where
  "free_range_map addr sz my_free_ranges =
     (let opt = prev_range addr my_free_ranges;
          merged = (case opt of Some (first, second) \<Rightarrow> first + second = addr | None \<Rightarrow> False);
          it_key = (case opt of Some (first, second) \<Rightarrow> if merged then first else addr | None \<Rightarrow> addr);
          m1 = (case opt of
                  Some (first, second) \<Rightarrow>
                    if merged then map_assign first (second + sz) my_free_ranges
                    else map_insert addr sz my_free_ranges
                | None \<Rightarrow> map_insert addr sz my_free_ranges)
      in (case (next_range it_key m1, map_of m1 it_key) of
            (Some (nfirst, nsecond), Some v) \<Rightarrow>
              if nfirst = addr + sz
              then map_erase nfirst (map_assign it_key (v + nsecond) m1)
              else m1
          | _ \<Rightarrow> m1))"

section \<open>Virtual memory areas\<close>

text \<open>
  What the model reads of a \<^verbatim>\<open>file\<close>: the open flags \<^verbatim>\<open>FREAD\<close> and
  \<^verbatim>\<open>FWRITE\<close>, the \<^verbatim>\<open>MNT_NOEXEC\<close> flag of its mount, the result of
  \<^verbatim>\<open>stat\<close> (errno, inode, device), its size, and which factory its virtual
  \<^verbatim>\<open>mmap\<close> method calls.
\<close>

datatype mmap_method = Default_file_mmap | Map_file_mmap

record file_t =
  f_fread :: bool
  f_fwrite :: bool
  mnt_noexec :: bool
  stat_errno :: nat
  st_ino :: u64
  st_dev :: u64
  f_size :: u64
  f_mmap :: mmap_method

text \<open>The page providers (\<^verbatim>\<open>page_allocator\<close> and its subclasses).\<close>

datatype page_allocator =
    Uninitialized_anonymous_page_provider
  | Initialized_anonymous_page_provider
  | Map_file_page_read file_t u64
  | Map_file_page_mmap file_t u64 bool

text \<open>
  A \<^verbatim>\<open>vma\<close>: the fields of the base class and, for a \<^verbatim>\<open>file_vma\<close>, the
  file, its offset and the cached inode and device.
\<close>

datatype vma_kind = Anon_vma | File_vma file_t u64 u64 u64

record vma =
  vma_start :: uintptr_t
  vma_end :: uintptr_t
  vma_perm :: u32
  vma_flags :: u32
  vma_map_dirty :: bool
  vma_page_ops :: page_allocator
  vma_variant :: vma_kind

definition vma_size :: "vma \<Rightarrow> u64" where
  "vma_size v = vma_end v - vma_start v"

definition has_flags :: "vma \<Rightarrow> u32 \<Rightarrow> bool" where
  "has_flags v flag = (vma_flags v AND flag \<noteq> 0)"

text \<open>The constructor of the base class and \<^verbatim>\<open>vma::set\<close> align the range to pages.\<close>

definition vma_ctor ::
  "uintptr_t \<times> uintptr_t \<Rightarrow> u32 \<Rightarrow> u32 \<Rightarrow> bool \<Rightarrow> page_allocator \<Rightarrow> vma_kind \<Rightarrow> vma" where
  "vma_ctor rng perm flags map_dirty page_ops variant =
     \<lparr>vma_start = align_down (fst rng) page_size,
      vma_end = align_up (snd rng) page_size,
      vma_perm = perm, vma_flags = flags, vma_map_dirty = map_dirty,
      vma_page_ops = page_ops, vma_variant = variant\<rparr>"

definition vma_set :: "vma \<Rightarrow> uintptr_t \<Rightarrow> uintptr_t \<Rightarrow> vma" where
  "vma_set v start e =
     v\<lparr>vma_start := align_down start page_size, vma_end := align_up e page_size\<rparr>"

definition vma_protect :: "vma \<Rightarrow> u32 \<Rightarrow> vma" where
  "vma_protect v perm = v\<lparr>vma_perm := perm\<rparr>"

definition update_flags :: "vma \<Rightarrow> u32 \<Rightarrow> vma" where
  "update_flags v flag = v\<lparr>vma_flags := vma_flags v OR flag\<rparr>"

definition anon_vma :: "uintptr_t \<times> uintptr_t \<Rightarrow> u32 \<Rightarrow> u32 \<Rightarrow> vma" where
  "anon_vma rng perm flags =
     vma_ctor rng perm flags True
       (if flags AND mmap_uninitialized \<noteq> 0
        then Uninitialized_anonymous_page_provider
        else Initialized_anonymous_page_provider)
       Anon_vma"

text \<open>
  \<^verbatim>\<open>file_vma::validate_perm\<close>; the base class accepts every permission. The
  result is the errno, \<open>None\<close> for 0.
\<close>

definition validate_perm :: "vma \<Rightarrow> u32 \<Rightarrow> error option" where
  "validate_perm v perm =
     (case vma_variant v of
        Anon_vma \<Rightarrow> None
      | File_vma f off ino dev \<Rightarrow>
          if \<not> f_fread f then Some EACCES
          else if perm AND perm_write \<noteq> 0 \<and> has_flags v mmap_shared \<and> \<not> f_fwrite f
          then Some EACCES
          else if perm AND perm_exec \<noteq> 0 \<and> mnt_noexec f then Some EPERM
          else None)"

text \<open>
  The constructor of \<^verbatim>\<open>file_vma\<close>: the base class gets \<^verbatim>\<open>flags | mmap_small\<close>;
  a refused permission and a failing \<^verbatim>\<open>stat\<close> are thrown.
\<close>

definition file_vma ::
  "uintptr_t \<times> uintptr_t \<Rightarrow> u32 \<Rightarrow> u32 \<Rightarrow> file_t \<Rightarrow> u64 \<Rightarrow> page_allocator \<Rightarrow> error + vma" where
  "file_vma rng perm flags f offset page_ops =
     (let v = vma_ctor rng perm (flags OR mmap_small) (\<not> (flags AND mmap_shared \<noteq> 0)) page_ops
                (File_vma f offset 0 0)
      in case validate_perm v perm of
           Some err \<Rightarrow> Inl err
         | None \<Rightarrow>
             if stat_errno f \<noteq> 0 then Inl (Errno (stat_errno f))
             else Inr (v\<lparr>vma_variant := File_vma f offset (st_ino f) (st_dev f)\<rparr>))"

definition default_file_mmap ::
  "file_t \<Rightarrow> uintptr_t \<times> uintptr_t \<Rightarrow> u32 \<Rightarrow> u32 \<Rightarrow> u64 \<Rightarrow> error + vma" where
  "default_file_mmap f rng flags perm offset =
     file_vma rng perm flags f offset (Map_file_page_read f offset)"

definition map_file_mmap ::
  "file_t \<Rightarrow> uintptr_t \<times> uintptr_t \<Rightarrow> u32 \<Rightarrow> u32 \<Rightarrow> u64 \<Rightarrow> error + vma" where
  "map_file_mmap f rng flags perm offset =
     file_vma rng perm flags f offset (Map_file_page_mmap f offset (flags AND mmap_shared \<noteq> 0))"

text \<open>The file's virtual \<^verbatim>\<open>mmap\<close> method.\<close>

definition file_mmap ::
  "file_t \<Rightarrow> uintptr_t \<times> uintptr_t \<Rightarrow> u32 \<Rightarrow> u32 \<Rightarrow> u64 \<Rightarrow> error + vma" where
  "file_mmap f rng flags perm offset =
     (case f_mmap f of
        Default_file_mmap \<Rightarrow> default_file_mmap f rng flags perm offset
      | Map_file_mmap \<Rightarrow> map_file_mmap f rng flags perm offset)"

text \<open>\<^verbatim>\<open>file_vma::offset\<close>: the file offset of an address of the area.\<close>

definition file_offset :: "vma \<Rightarrow> u64 \<Rightarrow> uintptr_t \<Rightarrow> u64" where
  "file_offset v off addr = off + (addr - vma_start v)"

section \<open>The superblock manager\<close>

text \<open>
  A worker holds the VMA registry and the free-range map of one shard; the manager
  holds \<^verbatim>\<open>max_cpus + 1\<close> workers (the last one serves the addresses outside the
  sharded window) and the owner byte of every superblock. The registry is the list of
  the set's elements in ascending order of their start. Locks are not modelled: every
  function is one thread's sequential run.
\<close>

record superblock_worker =
  vma_list :: "vma list"
  free_ranges :: free_map

record superblock_manager =
  workers :: "superblock_worker list"
  superblocks :: "u8 list"

text \<open>The constructor of \<^verbatim>\<open>vma_list_type\<close> inserts the two edge markers.\<close>

definition vma_list_type :: "vma list" where
  "vma_list_type =
     [anon_vma (lower_vma_limit, lower_vma_limit) 0 0,
      anon_vma (upper_vma_limit, upper_vma_limit) 0 0]"

definition superblock_manager_ctor :: "layout \<Rightarrow> superblock_manager" where
  "superblock_manager_ctor L =
     \<lparr>workers =
        replicate (max_cpus L) \<lparr>vma_list = vma_list_type, free_ranges = []\<rparr> @
        [\<lparr>vma_list = vma_list_type,
          free_ranges =
            map_insert (main_mem_area_base L) (push_bit 63 1 - main_mem_area_base L)
              (map_insert 0 (superblock_area_base L) [])\<rparr>],
      superblocks = replicate (unat (superblock_len L)) FREE\<rparr>"

definition superblock_index :: "layout \<Rightarrow> uintptr_t \<Rightarrow> u64" where
  "superblock_index L addr = (addr - superblock_area_base L) div superblock_size L"

definition superblock_ptr :: "layout \<Rightarrow> u64 \<Rightarrow> uintptr_t" where
  "superblock_ptr L superblock = superblock * superblock_size L + superblock_area_base L"

text \<open>
  \<^verbatim>\<open>owner\<close>: the shared worker's index outside the window, else the byte of the
  address's superblock (\<open>FREE\<close> for an unclaimed one).
\<close>

definition owner :: "layout \<Rightarrow> superblock_manager \<Rightarrow> uintptr_t \<Rightarrow> error + u8" where
  "owner L m addr =
     (if addr < superblock_area_base L \<or> addr \<ge> main_mem_area_base L
      then Inr (of_nat (length (workers m) - 1))
      else (let i = unat (superblock_index L addr)
            in if i < length (superblocks m) then Inr (superblocks m ! i)
               else Inl Out_of_bounds))"

text \<open>\<^verbatim>\<open>workers[i]\<close>, read and written.\<close>

definition worker_at :: "superblock_manager \<Rightarrow> u8 \<Rightarrow> error + superblock_worker" where
  "worker_at m i =
     (if unat i < length (workers m) then Inr (workers m ! unat i) else Inl Out_of_bounds)"

definition set_worker :: "superblock_manager \<Rightarrow> u8 \<Rightarrow> superblock_worker \<Rightarrow> superblock_manager" where
  "set_worker m i w = m\<lparr>workers := (workers m)[unat i := w]\<rparr>"

definition allocate_range ::
  "layout \<Rightarrow> superblock_manager \<Rightarrow> uintptr_t \<Rightarrow> u64 \<Rightarrow> error + superblock_manager" where
  "allocate_range L m addr sz =
     bind_err (owner L m addr) (\<lambda>i.
     bind_err (worker_at m i) (\<lambda>w.
     bind_err (allocate_range_map addr sz (free_ranges w)) (\<lambda>fr.
       Inr (set_worker m i (w\<lparr>free_ranges := fr\<rparr>)))))"

text \<open>
  \<^verbatim>\<open>free_range(addr, size, owner)\<close> and the two-argument overload, which asserts
  that the owner is a worker.
\<close>

definition free_range_owner ::
  "superblock_manager \<Rightarrow> uintptr_t \<Rightarrow> u64 \<Rightarrow> u8 \<Rightarrow> error + superblock_manager" where
  "free_range_owner m addr sz ow =
     bind_err (worker_at m ow) (\<lambda>w.
       Inr (set_worker m ow (w\<lparr>free_ranges := free_range_map addr sz (free_ranges w)\<rparr>)))"

definition free_range ::
  "layout \<Rightarrow> superblock_manager \<Rightarrow> uintptr_t \<Rightarrow> u64 \<Rightarrow> error + superblock_manager" where
  "free_range L m addr sz =
     bind_err (owner L m addr) (\<lambda>i.
       if unat i < length (workers m) then free_range_owner m addr sz i
       else Inl Assert_failed)"

subsection \<open>Decomposing a range by owner\<close>

text \<open>
  The loop of \<^verbatim>\<open>generate_owner_list\<close>, with \<open>res\<close>, \<open>prev_owner\<close> and the
  counter \<open>i\<close> as its state. The length of a tuple is
  \<^verbatim>\<open>std::min(superblock_size, size - i)\<close>, the step of the counter is
  \<^verbatim>\<open>size_in_superblock\<close>. \<^verbatim>\<open>res[res.size()-1]\<close> on an empty vector is
  \<open>Out_of_bounds\<close>. The loop is a partial function: \<open>None\<close> stands for a run that
  does not end.
\<close>

partial_function (option) generate_owner_list_loop ::
  "layout \<Rightarrow> superblock_manager \<Rightarrow> uintptr_t \<Rightarrow> u64 \<Rightarrow>
   (uintptr_t \<times> u64 \<times> u8) list \<Rightarrow> u8 \<Rightarrow> u64 \<Rightarrow> (error + (uintptr_t \<times> u64 \<times> u8) list) option" where
  "generate_owner_list_loop L m start sz res prev_owner i =
     (if i < sz then
        (case owner L m (start + i) of
           Inl e \<Rightarrow> Some (Inl e)
         | Inr cur_owner \<Rightarrow>
             if prev_owner = cur_owner then
               (if res = [] then Some (Inl Out_of_bounds)
                else generate_owner_list_loop L m start sz
                       (butlast res @
                        [(fst (last res),
                          fst (snd (last res)) + min (superblock_size L) (sz - i),
                          cur_owner)])
                       cur_owner
                       (i + (min (align_up (start + i + 1) (superblock_size L)) (start + sz)
                             - (start + i))))
             else generate_owner_list_loop L m start sz
                    (res @ [(start + i, min (superblock_size L) (sz - i), cur_owner)])
                    cur_owner
                    (i + (min (align_up (start + i + 1) (superblock_size L)) (start + sz)
                          - (start + i))))
      else Some (Inr res))"

declare generate_owner_list_loop.simps [code]

definition generate_owner_list ::
  "layout \<Rightarrow> superblock_manager \<Rightarrow> uintptr_t \<Rightarrow> u64 \<Rightarrow> (error + (uintptr_t \<times> u64 \<times> u8) list) option" where
  "generate_owner_list L m start sz =
     (if start + sz < superblock_area_base L \<or> start \<ge> main_mem_area_base L
      then (case owner L m start of
              Inl e \<Rightarrow> Some (Inl e)
            | Inr ow \<Rightarrow> Some (Inr [(start, sz, ow)]))
      else generate_owner_list_loop L m start sz [] 255 0)"

subsection \<open>Claiming superblocks\<close>

text \<open>
  \<^verbatim>\<open>release_superblocks(start, n)\<close>: for every index of \<open>[start, start + n)\<close> a
  compare-and-swap from \<open>cpuid\<close> to \<open>FREE\<close>; a compare-and-swap that fails stores
  the value it found in \<open>cpuid\<close>, the local that the next ones compare against. An
  index past the array is \<open>Out_of_bounds\<close>; the result is that error, if any, and the
  array as the loop left it.
\<close>

lemma word_less_succ:
  fixes i e :: u64
  assumes "i < e"
  shows "unat (i + 1) = Suc (unat i)" and "unat i < unat e"
proof -
  show lt: "unat i < unat e"
    using assms by (simp add: word_less_nat_alt)
  have "unat e < 2 ^ LENGTH(64)"
    by (rule unsigned_less)
  with lt have "unat i + unat (1 :: u64) < 2 ^ LENGTH(64)"
    by simp
  then have "unat (i + 1) = unat i + unat (1 :: u64)"
    by (simp only: unat_add_lem [THEN iffD1])
  then show "unat (i + 1) = Suc (unat i)"
    by simp
qed

function release_superblocks_loop ::
  "u8 list \<Rightarrow> u8 \<Rightarrow> u64 \<Rightarrow> u64 \<Rightarrow> error option \<times> u8 list" where
  "release_superblocks_loop sbs cpuid i e =
     (if i < e then
        (if i < of_nat (length sbs) then
           (if sbs ! unat i = cpuid
            then release_superblocks_loop (sbs[unat i := 255]) cpuid (i + 1) e
            else release_superblocks_loop sbs (sbs ! unat i) (i + 1) e)
         else (Some Out_of_bounds, sbs))
      else (None, sbs))"
  by pat_completeness auto
termination
proof (relation "measure (\<lambda>(sbs, cpuid, i, e). unat e - unat i)")
  show "wf (measure (\<lambda>(sbs, cpuid, i, e). unat e - unat i))"
    by simp
next
  fix sbs :: "u8 list" and cpuid :: u8 and i e :: u64
  assume "i < e"
  then have "unat (i + 1) = Suc (unat i)" and "unat i < unat e"
    by (rule word_less_succ)+
  then show "((sbs[unat i := 255], cpuid, i + 1, e), sbs, cpuid, i, e)
             \<in> measure (\<lambda>(sbs, cpuid, i, e). unat e - unat i)"
    and "((sbs, sbs ! unat i, i + 1, e), sbs, cpuid, i, e)
             \<in> measure (\<lambda>(sbs, cpuid, i, e). unat e - unat i)"
    by simp_all
qed

definition release_superblocks :: "u8 \<Rightarrow> u8 list \<Rightarrow> u64 \<Rightarrow> u32 \<Rightarrow> error option \<times> u8 list" where
  "release_superblocks cpu sbs start n = release_superblocks_loop sbs cpu start (start + ucast n)"

text \<open>
  Other CPUs act between the scan's load of a slot and its compare-and-swap. The
  schedule lists, for each compare-and-swap the scan attempts, the value another CPU
  stored in that slot in between, if any; past its end nothing interferes.
\<close>

definition interfere :: "u8 option list \<Rightarrow> nat \<Rightarrow> u8 list \<Rightarrow> u8 list" where
  "interfere schedule j sbs =
     (case schedule of Some v # rest \<Rightarrow> sbs[j := v] | _ \<Rightarrow> sbs)"

text \<open>
  \<^verbatim>\<open>allocate_superblocks(n)\<close> for the CPU \<open>cpu\<close>, with the scan's \<open>i\<close> and
  \<open>k\<close> as state. \<open>n\<close>, \<open>i\<close>, \<open>k\<close> and \<open>j\<close> are \<^verbatim>\<open>unsigned\<close>, so
  \<open>j = i - n + 1\<close> and the arguments \<open>i - n\<close> and \<open>j - i - n\<close> of
  \<^verbatim>\<open>release_superblocks\<close> wrap modulo \<open>2 ^ 32\<close>. The inner loop over \<open>j\<close>
  leaves at its first winning compare-and-swap (\<^verbatim>\<open>else break\<close>), so its body runs
  for the first \<open>j\<close> only. A retry is a recursive call from index 0; \<open>None\<close> stands
  for a run that never ends.
\<close>

partial_function (option) allocate_superblocks_scan ::
  "layout \<Rightarrow> u8 \<Rightarrow> u32 \<Rightarrow> u8 option list \<Rightarrow> u8 list \<Rightarrow> u32 \<Rightarrow> u32 \<Rightarrow>
   ((error + u64) \<times> u8 list) option" where
  "allocate_superblocks_scan L cpu n schedule sbs i k =
     (if ucast i < superblock_len L then
        (if \<not> (ucast i :: u64) < of_nat (length sbs) then Some (Inl Out_of_bounds, sbs)
         else if sbs ! unat i \<noteq> FREE then allocate_superblocks_scan L cpu n schedule sbs (i + 1) 0
         else if k + 1 = n then
           (if \<not> i - n + 1 \<le> i then Some (Inr (ucast (i - n + 1)), sbs)
            else if interfere schedule (unat (i - n + 1)) sbs ! unat (i - n + 1) = FREE
            then Some (Inr (ucast (i - n + 1)),
                       (interfere schedule (unat (i - n + 1)) sbs)[unat (i - n + 1) := cpu])
            else
              (case release_superblocks cpu (interfere schedule (unat (i - n + 1)) sbs)
                      (ucast (i - n)) ((i - n + 1) - i - n) of
                 (Some e, sbs') \<Rightarrow> Some (Inl e, sbs')
               | (None, sbs') \<Rightarrow> allocate_superblocks_scan L cpu n (tl schedule) sbs' 0 0))
         else allocate_superblocks_scan L cpu n schedule sbs (i + 1) (k + 1))
      else Some (Inl ENOMEM, sbs))"

declare allocate_superblocks_scan.simps [code]

definition allocate_superblocks ::
  "layout \<Rightarrow> u8 \<Rightarrow> u32 \<Rightarrow> u8 option list \<Rightarrow> u8 list \<Rightarrow> ((error + u64) \<times> u8 list) option" where
  "allocate_superblocks L cpu n schedule sbs = allocate_superblocks_scan L cpu n schedule sbs 0 0"

subsection \<open>A small layout for concrete runs\<close>

text \<open>
  A window of four superblocks of 1 GiB below \<open>main_mem_area_base\<close>, and 64 CPUs.
  \<open>two_owners\<close> is the manager after CPU 0 claimed superblock 0 and CPU 1
  claimed superblock 1.
\<close>

definition example_layout :: layout where
  "example_layout =
     \<lparr>superblock_area_base = 0x3FFF00000000, main_mem_area_base = 0x400000000000,
      superblock_size = 0x40000000, max_cpus = 64\<rparr>"

definition two_owners :: superblock_manager where
  "two_owners =
     (superblock_manager_ctor example_layout)
       \<lparr>superblocks := (superblocks (superblock_manager_ctor example_layout))[0 := 0, 1 := 1]\<rparr>"

section \<open>Page-table entries, providers and leaf operations\<close>

text \<open>
  A page-table entry as the walker's operations read and write it: the accessors the
  source calls (\<^verbatim>\<open>valid\<close>, \<^verbatim>\<open>writable\<close>, \<^verbatim>\<open>executable\<close>, \<^verbatim>\<open>dirty\<close>,
  \<^verbatim>\<open>large\<close>, \<^verbatim>\<open>addr\<close>, the software bit \<^verbatim>\<open>pte_cow\<close> and reserved bit 0).
\<close>

record pt_element =
  pte_valid :: bool
  pte_writable :: bool
  pte_executable :: bool
  pte_dirty :: bool
  pte_large :: bool
  pte_addr :: u64
  pte_cow :: bool
  pte_rsvd :: bool

definition make_empty_pte :: pt_element where
  "make_empty_pte =
     \<lparr>pte_valid = False, pte_writable = False, pte_executable = False, pte_dirty = False,
      pte_large = False, pte_addr = 0, pte_cow = False, pte_rsvd = False\<rparr>"








subsection \<open>Anonymous page providers\<close>

text \<open>
  The state one call of a provider's \<^verbatim>\<open>map\<close> works on: the bytes of memory, the
  entry \<open>ptep\<close> points to, and the pages handed back to the allocator. The allocator
  is outside the model: its answer (a page address, or null) is an argument. The
  translation \<^verbatim>\<open>virt_to_phys\<close> is left out: an entry holds the address of its page.
\<close>

record page_state =
  memory :: "u64 \<Rightarrow> u8"
  slot :: pt_element
  freed :: "(u64 \<times> u64) list"

definition memset :: "(u64 \<Rightarrow> u8) \<Rightarrow> u64 \<Rightarrow> u8 \<Rightarrow> u64 \<Rightarrow> (u64 \<Rightarrow> u8)" where
  "memset mem a c n = (\<lambda>x. if x - a < n then c else mem x)"

text \<open>
  \<^verbatim>\<open>fill\<close>: the uninitialized provider returns the page as it is, the initialized
  one zero-fills it when it is not null.
\<close>

definition fill :: "bool \<Rightarrow> (u64 \<Rightarrow> u8) \<Rightarrow> u64 option \<Rightarrow> u64 \<Rightarrow> (u64 \<Rightarrow> u8)" where
  "fill initialized mem page sz =
     (case page of
        Some a \<Rightarrow> if initialized then memset mem a 0 sz else mem
      | None \<Rightarrow> mem)"

text \<open>
  \<^verbatim>\<open>set_pte\<close>: a null page throws; else the entry is installed by compare-and-swap
  against the empty entry, and on a lost race the page is freed. The result is
  \<open>None\<close> for the exception.
\<close>

definition set_pte :: "u64 option \<Rightarrow> u64 \<Rightarrow> pt_element \<Rightarrow> page_state \<Rightarrow> bool option \<times> page_state" where
  "set_pte page sz pte st =
     (case page of
        None \<Rightarrow> (None, st)
      | Some a \<Rightarrow>
          if slot st = make_empty_pte
          then (Some True, st\<lparr>slot := pte\<lparr>pte_addr := a\<rparr>\<rparr>)
          else (Some False, st\<lparr>freed := freed st @ [(a, sz)]\<rparr>))"

text \<open>
  \<^verbatim>\<open>map\<close> of the two anonymous providers, for a 4K page (\<open>sz = page_size\<close>) and
  for a huge page: \<^verbatim>\<open>set_pte(fill(alloc(...), offset, size), ptep, pte)\<close>.
\<close>

definition anon_map :: "bool \<Rightarrow> u64 option \<Rightarrow> u64 \<Rightarrow> pt_element \<Rightarrow> page_state \<Rightarrow> bool option \<times> page_state" where
  "anon_map initialized page sz pte st =
     set_pte page sz pte (st\<lparr>memory := fill initialized (memory st) page sz\<rparr>)"

text \<open>Which of the two a provider is; the file providers are not anonymous.\<close>

definition provider_map ::
  "page_allocator \<Rightarrow> u64 option \<Rightarrow> u64 \<Rightarrow> pt_element \<Rightarrow> page_state \<Rightarrow> (bool option \<times> page_state) option" where
  "provider_map ops page sz pte st =
     (case ops of
        Uninitialized_anonymous_page_provider \<Rightarrow> Some (anon_map False page sz pte st)
      | Initialized_anonymous_page_provider \<Rightarrow> Some (anon_map True page sz pte st)
      | _ \<Rightarrow> None)"

subsection \<open>Unpopulate and the TLB gather\<close>

text \<open>
  What \<^verbatim>\<open>unpopulate\<close> does to the machine, in order: a provider's \<^verbatim>\<open>unmap\<close> of
  a page with its answer (true when the page is now the walker's to free), a global
  TLB flush, a page handed back to the allocator.
\<close>

datatype tlb_event =
    Unmapped u64 bool
  | Flush_tlb_all
  | Free_page u64
  | Free_huge_page u64 u64

text \<open>
  \<^verbatim>\<open>tlb_gather\<close>: the array \<open>pages\<close> of \<open>max_pages\<close> entries and the count
  \<open>nr_pages\<close>. The events are appended to the trace.
\<close>

definition max_pages :: nat where "max_pages = 20"

record tlb_gather =
  nr_pages :: nat
  pages :: "(u64 \<times> u64) list"

definition tlb_gather_init :: tlb_gather where
  "tlb_gather_init = \<lparr>nr_pages = 0, pages = replicate max_pages (0, 0)\<rparr>"

definition free_event :: "u64 \<times> u64 \<Rightarrow> tlb_event" where
  "free_event tp = (if snd tp = page_size then Free_page (fst tp) else Free_huge_page (fst tp) (snd tp))"

definition tlb_flush :: "tlb_gather \<Rightarrow> tlb_event list \<Rightarrow> bool \<times> tlb_gather \<times> tlb_event list" where
  "tlb_flush g tr =
     (if nr_pages g = 0 then (False, g, tr)
      else (True, g\<lparr>nr_pages := 0\<rparr>,
            tr @ [Flush_tlb_all] @ map free_event (take (nr_pages g) (pages g))))"

definition tlb_push :: "tlb_gather \<Rightarrow> tlb_event list \<Rightarrow> u64 \<Rightarrow> u64 \<Rightarrow> bool \<times> tlb_gather \<times> tlb_event list" where
  "tlb_push g tr a sz =
     (let (flushed, g1, tr1) = (if nr_pages g = max_pages then tlb_flush g tr else (False, g, tr))
      in (flushed, g1\<lparr>pages := (pages g1)[nr_pages g1 := (a, sz)], nr_pages := nr_pages g1 + 1\<rparr>, tr1))"

text \<open>
  The state of an \<^verbatim>\<open>unpopulate\<close> operation, and its \<^verbatim>\<open>page\<close> method for one
  leaf entry: \<open>addr\<close> and \<open>sz\<close> are the page the entry maps, \<open>unmap_ok\<close> is what
  the provider's \<^verbatim>\<open>unmap\<close> returns (the anonymous providers clear the entry and
  return true).
\<close>

record unpopulate_op =
  gather :: tlb_gather
  do_flush :: bool
  trace :: "tlb_event list"

definition unpopulate_init :: unpopulate_op where
  "unpopulate_init = \<lparr>gather = tlb_gather_init, do_flush = False, trace = []\<rparr>"

definition unpopulate_page :: "unpopulate_op \<Rightarrow> u64 \<times> u64 \<times> bool \<Rightarrow> unpopulate_op" where
  "unpopulate_page u leaf =
     (case leaf of (a, sz, unmap_ok) \<Rightarrow>
        if unmap_ok then
          (let (flushed, g1, tr1) = tlb_push (gather u) (trace u @ [Unmapped a True]) a sz
           in \<lparr>gather = g1, do_flush = \<not> flushed, trace = tr1\<rparr>)
        else u\<lparr>do_flush := True, trace := trace u @ [Unmapped a False]\<rparr>)"

text \<open>
  \<^verbatim>\<open>tlb_flush_needed\<close> flushes the gather; \<^verbatim>\<open>operate_range\<close> calls it when the
  walker is back and flushes itself when it answers true.
\<close>

definition tlb_flush_needed :: "unpopulate_op \<Rightarrow> bool \<times> unpopulate_op" where
  "tlb_flush_needed u =
     (let (flushed, g1, tr1) = tlb_flush (gather u) (trace u)
      in (\<not> flushed \<and> do_flush u, u\<lparr>gather := g1, trace := tr1\<rparr>))"

text \<open>
  \<^verbatim>\<open>operate_range\<close> with an \<^verbatim>\<open>unpopulate\<close>: the walker calls \<^verbatim>\<open>page\<close> for
  the leaf entries of the range, in order (the list \<open>leaves\<close>); then the flush the
  operation asks for.
\<close>

definition operate_range_unpopulate :: "(u64 \<times> u64 \<times> bool) list \<Rightarrow> unpopulate_op" where
  "operate_range_unpopulate leaves =
     (let u = foldl unpopulate_page unpopulate_init leaves;
          (needed, u1) = tlb_flush_needed u
      in if needed then u1\<lparr>trace := trace u1 @ [Flush_tlb_all]\<rparr> else u1)"

text \<open>
  What a trace has done to the pages, event by event: \<open>pend\<close> holds the walker's
  pages unmapped since the last flush, \<open>fl\<close> those unmapped, then flushed and not
  yet freed, and \<open>stale\<close> says that a page the provider keeps was unmapped since the
  last flush. A flush moves \<open>pend\<close> to \<open>fl\<close>. A free is allowed only for a page
  in \<open>fl\<close>, which it leaves; any other free ends the run with \<open>None\<close>.
\<close>

type_synonym flush_state = "u64 list \<times> u64 list \<times> bool"

fun trace_step :: "flush_state option \<Rightarrow> tlb_event \<Rightarrow> flush_state option" where
  "trace_step None e = None"
| "trace_step (Some (pend, fl, stale)) (Unmapped a ok) =
     Some (if ok then (pend @ [a], fl, stale) else (pend, fl, True))"
| "trace_step (Some (pend, fl, stale)) Flush_tlb_all = Some ([], fl @ pend, False)"
| "trace_step (Some (pend, fl, stale)) (Free_page a) =
     (if a \<in> set fl then Some (pend, remove1 a fl, stale) else None)"
| "trace_step (Some (pend, fl, stale)) (Free_huge_page a sz) =
     (if a \<in> set fl then Some (pend, remove1 a fl, stale) else None)"

text \<open>
  In a whole trace every free was allowed and nothing is left at the end: each of the
  walker's pages was freed, once, after a flush that came after its unmapping, and a
  flush came after every unmapping.
\<close>

definition freed_after_flush :: "tlb_event list \<Rightarrow> bool" where
  "freed_after_flush tr = (foldl trace_step (Some ([], [], False)) tr = Some ([], [], False))"

text \<open>The unmappings of a trace, in order.\<close>

fun unmappings :: "tlb_event list \<Rightarrow> (u64 \<times> bool) list" where
  "unmappings [] = []"
| "unmappings (Unmapped a ok # tr) = (a, ok) # unmappings tr"
| "unmappings (e # tr) = unmappings tr"

section \<open>Page faults\<close>

text \<open>
  The requests a VMA-level function sends to the page-table walker and to its other
  collaborators. The walker itself (\<^verbatim>\<open>map_range\<close>) is outside this part of the
  model: \<^verbatim>\<open>operate_range\<close> is recorded with its operation, the VMA's start, and
  the start and size after the alignment \<^verbatim>\<open>operate_range\<close> applies.
\<close>

datatype signal = SIGSEGV | SIGBUS

datatype page_op =
    Populate bool page_allocator u32 bool bool
  | Unpopulate page_allocator
  | Protection u32
  | Splithugepages
  | Dirty_cleaner file_t u64 u64

datatype effect =
    Operate_range page_op uintptr_t uintptr_t u64
  | Synchronize_cpu_caches uintptr_t u64
  | Handle_mmap_fault uintptr_t signal
  | File_sync file_t u64 u64
  | Sys_fsync file_t

definition operate_range :: "page_op \<Rightarrow> uintptr_t \<Rightarrow> uintptr_t \<Rightarrow> u64 \<Rightarrow> effect" where
  "operate_range mapper vstart start sz =
     Operate_range mapper vstart (align_down start page_size) (max (align_up sz page_size) page_size)"

text \<open>
  \<^verbatim>\<open>populate_vma\<close>: \<^verbatim>\<open>populate_small\<close> for a VMA with the small flag (the first
  argument of \<open>Populate\<close>), else \<^verbatim>\<open>populate\<close>; then the cache synchronisation
  for an executable VMA.
\<close>

definition populate_vma :: "vma \<Rightarrow> uintptr_t \<Rightarrow> u64 \<Rightarrow> bool \<Rightarrow> effect list" where
  "populate_vma v addr sz write =
     operate_range (Populate (has_flags v mmap_small) (vma_page_ops v) (vma_perm v) write (vma_map_dirty v))
       (vma_start v) addr sz
     # (if vma_perm v AND perm_exec \<noteq> 0 then [Synchronize_cpu_caches addr sz] else [])"

text \<open>
  \<^verbatim>\<open>vma::fault\<close> (the JVM balloon is configured out: its code refers to globals
  this file no longer has) and \<^verbatim>\<open>file_vma::fault\<close>. \<open>write\<close> is
  \<^verbatim>\<open>is_page_fault_write\<close> of the frame's error code.
\<close>

definition vma_fault :: "vma \<Rightarrow> uintptr_t \<Rightarrow> bool \<Rightarrow> effect list" where
  "vma_fault v addr write =
     (let hp_start = align_up (vma_start v) huge_page_size;
          hp_end = align_down (vma_end v) huge_page_size
      in if \<not> has_flags v mmap_small \<and> (hp_start \<le> addr \<and> addr < hp_end)
         then populate_vma v (align_down addr huge_page_size) huge_page_size write
         else populate_vma v addr page_size write)"

definition file_vma_fault :: "vma \<Rightarrow> file_t \<Rightarrow> u64 \<Rightarrow> uintptr_t \<Rightarrow> bool \<Rightarrow> effect list" where
  "file_vma_fault v f off addr write =
     (let hp_start = align_up (vma_start v) huge_page_size;
          hp_end = align_down (vma_end v) huge_page_size;
          fsize = f_size f
      in if file_offset v off addr \<ge> fsize then [Handle_mmap_fault addr SIGBUS]
         else if \<not> has_flags v mmap_small \<and> (hp_start \<le> addr \<and> addr < hp_end)
                 \<and> file_offset v off hp_end < fsize
         then populate_vma v (align_down addr huge_page_size) huge_page_size write
         else populate_vma v addr page_size write)"

text \<open>The virtual call \<^verbatim>\<open>vma->fault(addr, ef)\<close>.\<close>

definition fault :: "vma \<Rightarrow> uintptr_t \<Rightarrow> bool \<Rightarrow> effect list" where
  "fault v addr write =
     (case vma_variant v of
        Anon_vma \<Rightarrow> vma_fault v addr write
      | File_vma f off ino dev \<Rightarrow> file_vma_fault v f off addr write)"

text \<open>A file of 16 MiB, open for reading and writing, on a mount that allows exec.\<close>

definition example_file :: file_t where
  "example_file =
     \<lparr>f_fread = True, f_fwrite = True, mnt_noexec = False, stat_errno = 0,
      st_ino = 7, st_dev = 1, f_size = 0x1000000, f_mmap = Default_file_mmap\<rparr>"

section \<open>The VMA registry\<close>

text \<open>
  The registry of a worker is a \<^verbatim>\<open>boost::intrusive::set\<close> ordered by start, here
  the list of its nodes in that order. A node keeps its start for as long as it is in
  the set (\<^verbatim>\<open>split\<close> and \<^verbatim>\<open>protect\<close> change the end and the permission only),
  so an iterator is modelled by the start of its node, \<open>None\<close> for \<^verbatim>\<open>end()\<close>.
  Dereferencing \<^verbatim>\<open>end()\<close> and stepping back from the first node are undefined in
  the source and \<open>Out_of_bounds\<close> here.
\<close>

type_synonym iterator = "uintptr_t option"

definition lower_bound :: "vma list \<Rightarrow> uintptr_t \<Rightarrow> iterator" where
  "lower_bound l a = map_option vma_start (find (\<lambda>v. \<not> vma_start v < a) l)"

definition node_at :: "vma list \<Rightarrow> iterator \<Rightarrow> error + vma" where
  "node_at l it =
     (case it of
        None \<Rightarrow> Inl Out_of_bounds
      | Some k \<Rightarrow> (case find (\<lambda>v. vma_start v = k) l of
                    None \<Rightarrow> Inl Out_of_bounds
                  | Some v \<Rightarrow> Inr v))"

definition next_it :: "vma list \<Rightarrow> uintptr_t \<Rightarrow> iterator" where
  "next_it l k = map_option vma_start (find (\<lambda>v. k < vma_start v) l)"

definition prev_it :: "vma list \<Rightarrow> uintptr_t \<Rightarrow> iterator" where
  "prev_it l k = map_option vma_start (find (\<lambda>v. vma_start v < k) (rev l))"

text \<open>The nodes of the iterator range \<open>[first, second)\<close>, in order.\<close>

definition slice :: "vma list \<Rightarrow> iterator \<Rightarrow> iterator \<Rightarrow> vma list" where
  "slice l first second =
     (case first of
        None \<Rightarrow> []
      | Some a \<Rightarrow> filter (\<lambda>v. a \<le> vma_start v \<and> (case second of None \<Rightarrow> True | Some b \<Rightarrow> vma_start v < b)) l)"

text \<open>\<^verbatim>\<open>set::insert\<close> keeps the order and refuses a second node with the same start.\<close>

definition insert_node :: "vma list \<Rightarrow> vma \<Rightarrow> vma list" where
  "insert_node l n =
     (if list_ex (\<lambda>v. vma_start v = vma_start n) l then l
      else takeWhile (\<lambda>v. vma_start v < vma_start n) l @ n # dropWhile (\<lambda>v. vma_start v < vma_start n) l)"

definition erase_node :: "vma list \<Rightarrow> uintptr_t \<Rightarrow> vma list" where
  "erase_node l k = filter (\<lambda>v. vma_start v \<noteq> k) l"

definition update_node :: "vma list \<Rightarrow> uintptr_t \<Rightarrow> (vma \<Rightarrow> vma) \<Rightarrow> vma list" where
  "update_node l k f = map (\<lambda>v. if vma_start v = k then f v else v) l"

text \<open>
  The body of \<^verbatim>\<open>find_intersecting_vmas\<close> on the owner's list, for the range
  \<open>[rs, re)\<close>.
\<close>

definition find_intersecting_vmas_list ::
  "vma list \<Rightarrow> uintptr_t \<Rightarrow> uintptr_t \<Rightarrow> error + (iterator \<times> iterator)" where
  "find_intersecting_vmas_list l rs re =
     (if re \<le> rs then Inr (None, None)
      else
        bind_err (node_at l (lower_bound l rs)) (\<lambda>sv.
        bind_err
          (if vma_start sv > rs then
             bind_err (node_at l (prev_it l (vma_start sv))) (\<lambda>pv.
               Inr (if vma_end pv > rs then pv else sv))
           else Inr sv) (\<lambda>sv'.
          if vma_start sv' \<ge> re then Inr (None, None)
          else Inr (Some (vma_start sv'), lower_bound l re))))"

text \<open>
  \<^verbatim>\<open>find_intersecting_vmas\<close>: the assertion on the owners of the first and the
  last byte comes first. The result names the worker whose list the iterators range
  over.
\<close>

definition find_intersecting_vmas ::
  "layout \<Rightarrow> superblock_manager \<Rightarrow> uintptr_t \<Rightarrow> uintptr_t \<Rightarrow> error + (u8 \<times> iterator \<times> iterator)" where
  "find_intersecting_vmas L m rs re =
     bind_err (owner L m rs) (\<lambda>o1.
     bind_err (owner L m (re - 1)) (\<lambda>o2.
       if o1 \<noteq> o2 then Inl Assert_failed
       else
         bind_err (worker_at m o1) (\<lambda>w.
         bind_err (find_intersecting_vmas_list (vma_list w) rs re) (\<lambda>r.
           Inr (o1, r)))))"

text \<open>The nodes \<^verbatim>\<open>find_intersecting_vmas\<close> ranges over, for the loops that keep the set.\<close>

definition intersecting_vmas ::
  "layout \<Rightarrow> superblock_manager \<Rightarrow> uintptr_t \<Rightarrow> uintptr_t \<Rightarrow> error + (u8 \<times> vma list)" where
  "intersecting_vmas L m rs re =
     bind_err (find_intersecting_vmas L m rs re) (\<lambda>(ow, first, second).
     bind_err (worker_at m ow) (\<lambda>w.
       Inr (ow, slice (vma_list w) first second)))"

text \<open>\<^verbatim>\<open>ismapped\<close>: the loop over the range, then the function.\<close>

fun ismapped_loop :: "vma list \<Rightarrow> uintptr_t \<Rightarrow> uintptr_t \<Rightarrow> bool" where
  "ismapped_loop [] start e = False"
| "ismapped_loop (p # ps) start e =
     (if vma_start p > start then False
      else if vma_end p \<ge> e then True
      else ismapped_loop ps (vma_end p) e)"

definition ismapped :: "layout \<Rightarrow> superblock_manager \<Rightarrow> uintptr_t \<Rightarrow> u64 \<Rightarrow> error + bool" where
  "ismapped L m addr sz =
     bind_err (intersecting_vmas L m addr (addr + sz)) (\<lambda>(ow, vs).
       Inr (ismapped_loop vs addr (addr + sz)))"

text \<open>
  \<^verbatim>\<open>vma_lock\<close>: the assertion that the owner of the address is a worker; the lock
  itself is not modelled.
\<close>

definition vma_lock :: "layout \<Rightarrow> superblock_manager \<Rightarrow> uintptr_t \<Rightarrow> error + unit" where
  "vma_lock L m addr =
     bind_err (owner L m addr) (\<lambda>ow.
       if unat ow < length (workers m) then Inr () else Inl Assert_failed)"

text \<open>\<^verbatim>\<open>superblock_manager::insert\<close> and \<^verbatim>\<open>erase\<close>, by the owner of the VMA's start.\<close>

definition insert :: "layout \<Rightarrow> superblock_manager \<Rightarrow> vma \<Rightarrow> error + superblock_manager" where
  "insert L m n =
     bind_err (owner L m (vma_start n)) (\<lambda>i.
     bind_err (worker_at m i) (\<lambda>w.
       Inr (set_worker m i (w\<lparr>vma_list := insert_node (vma_list w) n\<rparr>))))"

definition erase :: "layout \<Rightarrow> superblock_manager \<Rightarrow> vma \<Rightarrow> error + superblock_manager" where
  "erase L m v =
     bind_err (owner L m (vma_start v)) (\<lambda>i.
     bind_err (worker_at m i) (\<lambda>w.
       Inr (set_worker m i (w\<lparr>vma_list := erase_node (vma_list w) (vma_start v)\<rparr>))))"

subsection \<open>Split\<close>

text \<open>
  \<^verbatim>\<open>anon_vma::split\<close> and \<^verbatim>\<open>file_vma::split\<close> on the VMA itself: nothing for an
  edge outside the open interval, else the truncated VMA and the new one. The file's
  \<^verbatim>\<open>mmap\<close> may throw.
\<close>

definition split_vma :: "vma \<Rightarrow> uintptr_t \<Rightarrow> error + (vma \<times> vma option)" where
  "split_vma v edge =
     (if edge \<le> vma_start v \<or> edge \<ge> vma_end v then Inr (v, None)
      else
        (case vma_variant v of
           Anon_vma \<Rightarrow>
             Inr (vma_set v (vma_start v) edge,
                  Some (anon_vma (edge, vma_end v) (vma_perm v) (vma_flags v)))
         | File_vma f off ino dev \<Rightarrow>
             bind_err (file_mmap f (edge, vma_end v) (vma_flags v) (vma_perm v) (file_offset v off edge))
               (\<lambda>n. Inr (vma_set v (vma_start v) edge, Some n))))"

text \<open>
  \<^verbatim>\<open>i->split(edge)\<close> for the node with start \<open>k\<close> of worker \<open>wi\<close>: the node is
  changed in place, the new VMA goes through \<^verbatim>\<open>sb_mgr->insert\<close>.
\<close>

definition split :: "layout \<Rightarrow> superblock_manager \<Rightarrow> u8 \<Rightarrow> uintptr_t \<Rightarrow> uintptr_t \<Rightarrow> error + superblock_manager" where
  "split L m wi k edge =
     bind_err (worker_at m wi) (\<lambda>w.
     bind_err (node_at (vma_list w) (Some k)) (\<lambda>v.
     bind_err (split_vma v edge) (\<lambda>(v', new).
       (case new of
          None \<Rightarrow> Inr m
        | Some n \<Rightarrow>
            insert L (set_worker m wi (w\<lparr>vma_list := update_node (vma_list w) k (\<lambda>x. v')\<rparr>)) n))))"

section \<open>The public operations\<close>

text \<open>
  The state of the manager together with the requests sent to the page-table walker
  and to the files so far, oldest first. The collaborators the operations ask are
  given by their answers: \<^verbatim>\<open>safe_load\<close>, the bounds of the kernel image and of the
  linear map, what a \<^verbatim>\<open>dirty_cleaner\<close> walk accounts or throws, \<^verbatim>\<open>sys_fsync\<close>
  and what a file's \<^verbatim>\<open>sync\<close> throws, and the address at which \<^verbatim>\<open>new\<close> put the
  object of the VMA that starts at a given address.

  A function returns \<open>Inl\<close> when the source aborts on an assertion, indexes out of
  bounds or throws, and \<open>Inr\<close> with its value otherwise; an \<^verbatim>\<open>error\<close> object it
  returns is an \<open>error option\<close>, \<open>None\<close> for \<^verbatim>\<open>no_error()\<close>.
\<close>

record mmu_state =
  sb_mgr :: superblock_manager
  effects :: "effect list"

record collaborators =
  safe_load :: "uintptr_t \<Rightarrow> bool"
  elf_start :: u64
  elf_size :: u64
  phys_mem :: u64
  dirty_cleaner_walk :: "vma \<Rightarrow> uintptr_t \<Rightarrow> u64 \<Rightarrow> error + u64"
  sys_fsync :: "file_t \<Rightarrow> error option"
  file_sync :: "file_t \<Rightarrow> u64 \<Rightarrow> u64 \<Rightarrow> error option"
  vma_object :: "uintptr_t \<Rightarrow> uintptr_t"

definition emit :: "mmu_state \<Rightarrow> effect list \<Rightarrow> mmu_state" where
  "emit s es = s\<lparr>effects := effects s @ es\<rparr>"

definition contains :: "uintptr_t \<Rightarrow> uintptr_t \<Rightarrow> vma \<Rightarrow> bool" where
  "contains start e y = (vma_start y \<ge> start \<and> vma_end y \<le> e)"

text \<open>The iterator after the node \<open>k\<close> in the list of worker \<open>wi\<close>.\<close>

definition node_after :: "superblock_manager \<Rightarrow> u8 \<Rightarrow> uintptr_t \<Rightarrow> iterator" where
  "node_after m wi k = (case worker_at m wi of Inl e \<Rightarrow> None | Inr w \<Rightarrow> next_it (vma_list w) k)"

definition it_measure :: "iterator \<Rightarrow> nat" where
  "it_measure it = (case it of None \<Rightarrow> 0 | Some k \<Rightarrow> 2 ^ 64 - unat k)"

lemma it_measure_node_after: "it_measure (node_after m wi k) < it_measure (Some k)"
proof -
  have k: "unat k < 2 ^ 64"
    using unsigned_less [of k] by simp
  show ?thesis
  proof (cases "node_after m wi k")
    case None
    with k show ?thesis by (simp add: it_measure_def)
  next
    case (Some k')
    then obtain w :: superblock_worker where "next_it (vma_list w) k = Some k'"
      by (auto simp: node_after_def split: sum.splits)
    then have "k < k'"
      by (auto simp: next_it_def find_Some_iff)
    then have "unat k < unat k'"
      by (simp add: word_less_nat_alt)
    moreover have "unat k' < 2 ^ 64"
      using unsigned_less [of k'] by simp
    ultimately show ?thesis
      using Some by (simp add: it_measure_def)
  qed
qed

subsection \<open>Unmapping\<close>

text \<open>
  \<^verbatim>\<open>evacuate(vma& dead)\<close>: unpopulate the whole VMA, return its range to the free
  ranges, erase it.
\<close>

definition evacuate_vma :: "layout \<Rightarrow> mmu_state \<Rightarrow> vma \<Rightarrow> error + mmu_state" where
  "evacuate_vma L s dead =
     (let s1 = emit s [operate_range (Unpopulate (vma_page_ops dead)) (vma_start dead) (vma_start dead) (vma_size dead)]
      in bind_err (free_range L (sb_mgr s1) (vma_start dead) (vma_size dead)) (\<lambda>m1.
         bind_err (erase L m1 dead) (\<lambda>m2.
           Inr (s1\<lparr>sb_mgr := m2\<rparr>))))"

text \<open>
  One turn of the loop of \<^verbatim>\<open>evacuate(start, end)\<close> at the node \<open>k\<close>. In
  \<^verbatim>\<open>evacuate(*i--)\<close> the iterator steps back before the node goes, so the node must
  have a predecessor.
\<close>

definition evacuate_step ::
  "layout \<Rightarrow> u8 \<Rightarrow> uintptr_t \<Rightarrow> uintptr_t \<Rightarrow> uintptr_t \<Rightarrow> mmu_state \<Rightarrow> error + mmu_state" where
  "evacuate_step L wi start e k s =
     bind_err (split L (sb_mgr s) wi k e) (\<lambda>m1.
     bind_err (split L m1 wi k start) (\<lambda>m2.
     bind_err (worker_at m2 wi) (\<lambda>w.
     bind_err (node_at (vma_list w) (Some k)) (\<lambda>v.
       if contains start e v then
         (case prev_it (vma_list w) k of
            None \<Rightarrow> Inl Out_of_bounds
          | Some pk \<Rightarrow> evacuate_vma L (s\<lparr>sb_mgr := m2\<rparr>) v)
       else Inr (s\<lparr>sb_mgr := m2\<rparr>)))))"

function evacuate_loop ::
  "layout \<Rightarrow> u8 \<Rightarrow> uintptr_t \<Rightarrow> uintptr_t \<Rightarrow> iterator \<Rightarrow> iterator \<Rightarrow> mmu_state \<Rightarrow> error + mmu_state" where
  "evacuate_loop L wi start e it second s =
     (if it = second then Inr s
      else
        (case it of
           None \<Rightarrow> Inl Out_of_bounds
         | Some k \<Rightarrow>
             (case evacuate_step L wi start e k s of
                Inl ex \<Rightarrow> Inl ex
              | Inr s' \<Rightarrow> evacuate_loop L wi start e (node_after (sb_mgr s') wi k) second s')))"
  by pat_completeness auto
termination
  by (relation "measure (\<lambda>(L, wi, start, e, it, second, s). it_measure it)")
     (simp_all add: it_measure_node_after)

definition evacuate :: "layout \<Rightarrow> mmu_state \<Rightarrow> uintptr_t \<Rightarrow> uintptr_t \<Rightarrow> error + mmu_state" where
  "evacuate L s start e =
     bind_err (find_intersecting_vmas L (sb_mgr s) start e) (\<lambda>(wi, first, second).
       evacuate_loop L wi start e first second s)"

definition unmap :: "layout \<Rightarrow> mmu_state \<Rightarrow> uintptr_t \<Rightarrow> u64 \<Rightarrow> error + mmu_state" where
  "unmap L s addr sz = evacuate L s addr (addr + align_up sz page_size)"

subsection \<open>Syncing\<close>

text \<open>
  \<^verbatim>\<open>anon_vma::sync\<close> and \<^verbatim>\<open>file_vma::sync\<close>. The walk of the
  \<^verbatim>\<open>dirty_cleaner\<close> answers with the bytes it accounted or with the error its
  \<^verbatim>\<open>finalize\<close> threw.
\<close>

definition vma_sync ::
  "collaborators \<Rightarrow> mmu_state \<Rightarrow> vma \<Rightarrow> uintptr_t \<Rightarrow> uintptr_t \<Rightarrow> error option \<times> mmu_state" where
  "vma_sync env s v start e =
     (case vma_variant v of
        Anon_vma \<Rightarrow> (None, s)
      | File_vma f off ino dev \<Rightarrow>
          if \<not> has_flags v mmap_shared then (Some ENOMEM, s)
          else
            (case vma_page_ops v of
               Map_file_page_read f' off' \<Rightarrow>
                 (let start' = max start (vma_start v);
                      e' = min e (vma_end v);
                      sz = e' - start';
                      s1 = emit s [operate_range (Dirty_cleaner f off (f_size f)) (vma_start v) start' sz]
                  in case dirty_cleaner_walk env v start' sz of
                       Inl err \<Rightarrow> (Some err, s1)
                     | Inr n \<Rightarrow> if n \<noteq> 0 then (sys_fsync env f, emit s1 [Sys_fsync f]) else (None, s1))
             | _ \<Rightarrow>
                 (let s1 = emit s [File_sync f (off + start - vma_start v) (off + e - vma_start v)]
                  in case file_sync env f (off + start - vma_start v) (off + e - vma_start v) of
                       Some err \<Rightarrow> (Some err, s1)
                     | None \<Rightarrow> (sys_fsync env f, emit s1 [Sys_fsync f]))))"

fun sync_loop ::
  "collaborators \<Rightarrow> vma list \<Rightarrow> uintptr_t \<Rightarrow> uintptr_t \<Rightarrow> error option \<Rightarrow> mmu_state \<Rightarrow> error option \<times> mmu_state" where
  "sync_loop env [] start e err s = (err, s)"
| "sync_loop env (v # vs) start e err s =
     (case vma_sync env s v (max start (vma_start v)) (min e (vma_end v)) of
        (Some err', s') \<Rightarrow> (Some err', s')
      | (None, s') \<Rightarrow> sync_loop env vs start e None s')"

definition sync ::
  "layout \<Rightarrow> collaborators \<Rightarrow> mmu_state \<Rightarrow> uintptr_t \<Rightarrow> u64 \<Rightarrow> error + (error option \<times> mmu_state)" where
  "sync L env s addr len =
     (let start = addr; e = start + align_up len page_size
      in bind_err (intersecting_vmas L (sb_mgr s) start e) (\<lambda>(wi, vs).
           Inr (sync_loop env vs start e (Some ENOMEM) s)))"

subsection \<open>munmap, msync, madvise\<close>

definition munmap ::
  "layout \<Rightarrow> collaborators \<Rightarrow> mmu_state \<Rightarrow> uintptr_t \<Rightarrow> u64 \<Rightarrow> error + (error option \<times> mmu_state)" where
  "munmap L env s addr len =
     bind_err (vma_lock L (sb_mgr s) addr) (\<lambda>u.
     bind_err (ismapped L (sb_mgr s) addr (align_up len page_size)) (\<lambda>mapped.
       if \<not> mapped then Inr (Some EINVAL, s)
       else
         bind_err (sync L env s addr (align_up len page_size)) (\<lambda>(err, s1).
         bind_err (unmap L s1 addr (align_up len page_size)) (\<lambda>s2.
           Inr (None, s2)))))"

definition msync ::
  "layout \<Rightarrow> collaborators \<Rightarrow> mmu_state \<Rightarrow> uintptr_t \<Rightarrow> u64 \<Rightarrow> error + (error option \<times> mmu_state)" where
  "msync L env s addr len =
     bind_err (vma_lock L (sb_mgr s) addr) (\<lambda>u.
     bind_err (ismapped L (sb_mgr s) addr len) (\<lambda>mapped.
       if \<not> mapped then Inr (Some ENOMEM, s)
       else sync L env s addr len))"

text \<open>
  \<^verbatim>\<open>depopulate\<close> and \<^verbatim>\<open>nohugepage\<close>: loops over the range with \<open>start\<close> and
  \<open>length\<close> as state.
\<close>

fun depopulate_loop :: "vma list \<Rightarrow> uintptr_t \<Rightarrow> u64 \<Rightarrow> effect list" where
  "depopulate_loop [] start len = []"
| "depopulate_loop (v # vs) start len =
     operate_range (Unpopulate (vma_page_ops v)) (vma_start v) start (min len (vma_size v))
     # depopulate_loop vs (start + vma_size v) (len - vma_size v)"

definition depopulate :: "layout \<Rightarrow> mmu_state \<Rightarrow> uintptr_t \<Rightarrow> u64 \<Rightarrow> error + mmu_state" where
  "depopulate L s addr len =
     bind_err (intersecting_vmas L (sb_mgr s) addr (addr + align_up len page_size)) (\<lambda>(wi, vs).
       Inr (emit s (depopulate_loop vs addr (align_up len page_size))))"

text \<open>
  The assertion of \<^verbatim>\<open>vma::update_flags\<close>,
  \<^verbatim>\<open>assert(sb_mgr->vma_lock(this).wowned())\<close>: the lock looked up is the one of
  the owner of the address of the VMA object itself, \<open>this\<close>, and
  \<^verbatim>\<open>vma_lock\<close> asserts that this owner is a worker. The calling thread holds
  one lock for writing, the one of the worker \<open>held\<close>.
\<close>

definition update_flags_assert :: "layout \<Rightarrow> superblock_manager \<Rightarrow> u8 \<Rightarrow> uintptr_t \<Rightarrow> error + unit" where
  "update_flags_assert L m held this =
     bind_err (owner L m this) (\<lambda>ow.
       if \<not> unat ow < length (workers m) then Inl Assert_failed
       else if ow = held then Inr () else Inl Assert_failed)"

text \<open>
  \<^verbatim>\<open>nohugepage\<close> sets the small flag of each node that lacks it, in place, and
  sends a \<^verbatim>\<open>splithugepages\<close> walk over it; the loop gives the nodes to change and
  the walks, or the failed assertion.
\<close>

fun nohugepage_loop ::
  "layout \<Rightarrow> superblock_manager \<Rightarrow> (uintptr_t \<Rightarrow> uintptr_t) \<Rightarrow> u8 \<Rightarrow> vma list \<Rightarrow> uintptr_t \<Rightarrow> u64 \<Rightarrow>
   error + (uintptr_t \<times> effect) list" where
  "nohugepage_loop L m obj held [] start len = Inr []"
| "nohugepage_loop L m obj held (v # vs) start len =
     (if \<not> has_flags v mmap_small then
        bind_err (update_flags_assert L m held (obj (vma_start v))) (\<lambda>u.
        bind_err (nohugepage_loop L m obj held vs (start + vma_size v) (len - vma_size v)) (\<lambda>rest.
          Inr ((vma_start v, operate_range Splithugepages (vma_start v) start (min len (vma_size v))) # rest)))
      else nohugepage_loop L m obj held vs (start + vma_size v) (len - vma_size v))"

definition nohugepage ::
  "layout \<Rightarrow> collaborators \<Rightarrow> mmu_state \<Rightarrow> u8 \<Rightarrow> uintptr_t \<Rightarrow> u64 \<Rightarrow> error + mmu_state" where
  "nohugepage L env s held addr len =
     bind_err (intersecting_vmas L (sb_mgr s) addr (addr + align_up len page_size)) (\<lambda>(wi, vs).
     bind_err (worker_at (sb_mgr s) wi) (\<lambda>w.
     bind_err (nohugepage_loop L (sb_mgr s) (vma_object env) held vs addr (align_up len page_size)) (\<lambda>todo.
       (let l' = map (\<lambda>v. if list_ex (\<lambda>t. fst t = vma_start v) todo then update_flags v mmap_small else v)
                   (vma_list w)
        in Inr (emit (s\<lparr>sb_mgr := set_worker (sb_mgr s) wi (w\<lparr>vma_list := l'\<rparr>)\<rparr>) (map snd todo))))))"

text \<open>
  \<^verbatim>\<open>advise\<close> takes the lock of the address's owner for writing, which is the lock
  held in \<^verbatim>\<open>nohugepage\<close>.
\<close>

datatype advice = Advise_dontneed | Advise_nohugepage | Advise_other

definition advise ::
  "layout \<Rightarrow> collaborators \<Rightarrow> mmu_state \<Rightarrow> uintptr_t \<Rightarrow> u64 \<Rightarrow> advice \<Rightarrow> error + (error option \<times> mmu_state)" where
  "advise L env s addr sz adv =
     bind_err (vma_lock L (sb_mgr s) addr) (\<lambda>u.
     bind_err (ismapped L (sb_mgr s) addr sz) (\<lambda>mapped.
       if \<not> mapped then Inr (Some ENOMEM, s)
       else
         (case adv of
            Advise_dontneed \<Rightarrow> bind_err (depopulate L s addr sz) (\<lambda>s1. Inr (None, s1))
          | Advise_nohugepage \<Rightarrow>
              bind_err (owner L (sb_mgr s) addr) (\<lambda>held.
              bind_err (nohugepage L env s held addr sz) (\<lambda>s1. Inr (None, s1)))
          | Advise_other \<Rightarrow> Inr (Some EINVAL, s))))"

subsection \<open>mincore\<close>

definition is_linear_mapped :: "collaborators \<Rightarrow> uintptr_t \<Rightarrow> u64 \<Rightarrow> bool" where
  "is_linear_mapped env addr sz =
     (if addr \<ge> elf_start env \<and> addr + sz \<le> elf_start env + elf_size env then True
      else addr \<ge> phys_mem env)"

text \<open>
  The loop of \<^verbatim>\<open>mincore\<close> over the pointer \<open>p\<close>, appending to \<open>vec\<close>. Pointer
  arithmetic wraps, so the loop is a partial function; \<open>None\<close> stands for a run that
  does not end.
\<close>

partial_function (option) mincore_loop ::
  "collaborators \<Rightarrow> uintptr_t \<Rightarrow> uintptr_t \<Rightarrow> u8 list \<Rightarrow> u8 list option" where
  "mincore_loop env p e vec =
     (if p < e
      then mincore_loop env (p + page_size) e (vec @ [if safe_load env p then 1 else 0])
      else Some vec)"

declare mincore_loop.simps [code]

text \<open>The result of \<^verbatim>\<open>mincore\<close>: the error it returns and the bytes it wrote to \<open>vec\<close>.\<close>

definition mincore ::
  "layout \<Rightarrow> collaborators \<Rightarrow> mmu_state \<Rightarrow> uintptr_t \<Rightarrow> u64 \<Rightarrow> (error + (error option \<times> u8 list)) option" where
  "mincore L env s addr len =
     (case vma_lock L (sb_mgr s) addr of
        Inl ex \<Rightarrow> Some (Inl ex)
      | Inr u \<Rightarrow>
          if is_linear_mapped env addr len
          then map_option (\<lambda>vec. Inr (None, vec)) (mincore_loop env addr (align_up (addr + len) page_size) [])
          else
            (case ismapped L (sb_mgr s) addr len of
               Inl ex \<Rightarrow> Some (Inl ex)
             | Inr mapped \<Rightarrow>
                 if \<not> mapped then Some (Inr (Some ENOMEM, []))
                 else map_option (\<lambda>vec. Inr (None, vec))
                        (mincore_loop env addr (align_up (addr + len) page_size) [])))"

subsection \<open>mprotect\<close>

text \<open>One turn of the loop of \<^verbatim>\<open>protect\<close> at the node \<open>k\<close>.\<close>

definition protect_step ::
  "layout \<Rightarrow> u8 \<Rightarrow> uintptr_t \<Rightarrow> uintptr_t \<Rightarrow> u32 \<Rightarrow> uintptr_t \<Rightarrow> mmu_state \<Rightarrow> error + (error option \<times> mmu_state)" where
  "protect_step L wi start e perm k s =
     bind_err (worker_at (sb_mgr s) wi) (\<lambda>w0.
     bind_err (node_at (vma_list w0) (Some k)) (\<lambda>v0.
       if vma_perm v0 = perm then Inr (None, s)
       else
         (case validate_perm v0 perm of
            Some err \<Rightarrow> Inr (Some err, s)
          | None \<Rightarrow>
              bind_err (split L (sb_mgr s) wi k e) (\<lambda>m1.
              bind_err (split L m1 wi k start) (\<lambda>m2.
              bind_err (worker_at m2 wi) (\<lambda>w.
              bind_err (node_at (vma_list w) (Some k)) (\<lambda>v.
                if contains start e v then
                  Inr (None,
                       emit (s\<lparr>sb_mgr := set_worker m2 wi
                                  (w\<lparr>vma_list := update_node (vma_list w) k (\<lambda>x. vma_protect x perm)\<rparr>)\<rparr>)
                         [operate_range (Protection perm) (vma_start v) (vma_start v) (vma_size v)])
                else Inr (None, s\<lparr>sb_mgr := m2\<rparr>))))))))"




section \<open>Mapping anonymous memory\<close>

text \<open>
  The first-fit loop of \<^verbatim>\<open>reserve_range\<close> over the caller's free ranges, in key
  order: a range longer than \<open>sz\<close> is shortened and gives its end, a range of
  exactly \<open>sz\<close> is erased and gives its start. The result is the address and the
  map, \<open>None\<close> when no range fits.
\<close>

fun first_fit :: "u64 \<Rightarrow> free_map \<Rightarrow> (uintptr_t \<times> free_map) option" where
  "first_fit sz [] = None"
| "first_fit sz ((k, v) # m) =
     (if v > sz then Some (k + (v - sz), (k, v - sz) # m)
      else if v = sz then Some (k, m)
      else (case first_fit sz m of None \<Rightarrow> None | Some (a, m') \<Rightarrow> Some (a, (k, v) # m')))"

text \<open>
  \<^verbatim>\<open>reserve_range(size)\<close> on the CPU \<open>cpu\<close>: first fit in the CPU's own free
  ranges; when nothing fits, one new superblock, whose start is the result and whose
  rest is freed. \<^verbatim>\<open>allocate_superblocks\<close> throws \<open>ENOMEM\<close>.
\<close>

definition reserve_range ::
  "layout \<Rightarrow> u8 \<Rightarrow> u8 option list \<Rightarrow> superblock_manager \<Rightarrow> u64 \<Rightarrow>
   (error + (uintptr_t \<times> superblock_manager)) option" where
  "reserve_range L cpu schedule m sz =
     (case worker_at m cpu of
        Inl e \<Rightarrow> Some (Inl e)
      | Inr my \<Rightarrow>
          (case first_fit sz (free_ranges my) of
             Some (a, fr) \<Rightarrow> Some (Inr (a, set_worker m cpu (my\<lparr>free_ranges := fr\<rparr>)))
           | None \<Rightarrow>
               (case allocate_superblocks L cpu 1 schedule (superblocks m) of
                  None \<Rightarrow> None
                | Some (Inl e, sbs) \<Rightarrow> Some (Inl e)
                | Some (Inr s, sbs) \<Rightarrow>
                    (let ret = superblock_ptr L s
                     in Some (bind_err
                          (free_range_owner (m\<lparr>superblocks := sbs\<rparr>) (ret + sz) (superblock_size L - sz) cpu)
                          (\<lambda>m2. Inr (ret, m2)))))))"

text \<open>
  \<^verbatim>\<open>allocate(v, start, size, search)\<close>: with \<open>search\<close> the range comes from
  \<^verbatim>\<open>reserve_range\<close>; without, the given range is evacuated and taken out of the
  free ranges with \<^verbatim>\<open>allocate_range\<close>. Then the VMA is set to the range and
  inserted.
\<close>

definition allocate ::
  "layout \<Rightarrow> u8 \<Rightarrow> u8 option list \<Rightarrow> mmu_state \<Rightarrow> vma \<Rightarrow> uintptr_t \<Rightarrow> u64 \<Rightarrow> bool \<Rightarrow>
   (error + (uintptr_t \<times> mmu_state)) option" where
  "allocate L cpu schedule s v start sz search =
     (case (if search
            then map_option (\<lambda>r. bind_err r (\<lambda>(a, m). Inr (a, s\<lparr>sb_mgr := m\<rparr>)))
                   (reserve_range L cpu schedule (sb_mgr s) sz)
            else Some (bind_err (vma_lock L (sb_mgr s) start) (\<lambda>u.
                       bind_err (evacuate L s start (start + sz)) (\<lambda>s1.
                       bind_err (allocate_range L (sb_mgr s1) start sz) (\<lambda>m.
                         Inr (start, s1\<lparr>sb_mgr := m\<rparr>))))))
      of
        None \<Rightarrow> None
      | Some r \<Rightarrow>
          Some (bind_err r (\<lambda>(start', s2).
                bind_err (vma_lock L (sb_mgr s2) start') (\<lambda>u.
                bind_err (insert L (sb_mgr s2) (vma_set v start' (start' + sz))) (\<lambda>m.
                  Inr (start', s2\<lparr>sb_mgr := m\<rparr>))))))"

text \<open>
  \<^verbatim>\<open>map_anon(addr, size, flags, perm)\<close>: the new \<^verbatim>\<open>anon_vma\<close>, its allocation,
  and with \<^verbatim>\<open>mmap_populate\<close> the populate walk over it. The result is the address.
\<close>

definition map_anon ::
  "layout \<Rightarrow> u8 \<Rightarrow> u8 option list \<Rightarrow> mmu_state \<Rightarrow> uintptr_t \<Rightarrow> u64 \<Rightarrow> u32 \<Rightarrow> u32 \<Rightarrow>
   (error + (uintptr_t \<times> mmu_state)) option" where
  "map_anon L cpu schedule s addr sz flags perm =
     (let search = \<not> (flags AND mmap_fixed \<noteq> 0);
          sz' = align_up sz page_size;
          v0 = anon_vma (addr, addr + sz') perm flags
      in map_option (\<lambda>r. bind_err r (\<lambda>(v, s1).
           if flags AND mmap_populate \<noteq> 0 then
             bind_err (vma_lock L (sb_mgr s1) v) (\<lambda>u.
               Inr (v, emit s1 (populate_vma (vma_set v0 v (v + sz')) v sz' False)))
           else Inr (v, s1)))
         (allocate L cpu schedule s v0 addr sz' search))"

section \<open>The populate walk\<close>

text \<open>
  The page table as the walks of this file see it. The two lowest levels are
  modelled: \<open>pd\<close> gives the level-1 entry of a 2 MiB region, by the region's base
  address: empty, a large leaf, or a pointer to a level-0 table; \<open>pt\<close> gives the
  level-0 entry of a 4K page, by the page's address, and is read only under a table
  entry. With \<^verbatim>\<open>nr_page_sizes\<close> at most 2 the higher levels hold no leaves; a walk
  that allocates creates them on its way down, and they are left out.

  \<open>ram\<close> holds the bytes of memory by the address of their page, as in
  \<open>page_state\<close>. The allocator is a collaborator: \<open>pool\<close> and \<open>huge_pool\<close>
  list its coming answers to the providers' calls of \<^verbatim>\<open>alloc_page\<close> and
  \<^verbatim>\<open>alloc_huge_page\<close> (none left: a null pointer), \<open>given_back\<close> the pages
  freed.
\<close>

datatype pd_entry = Pd_empty | Pd_large pt_element | Pd_table

record machine =
  pd :: "u64 \<Rightarrow> pd_entry"
  pt :: "u64 \<Rightarrow> pt_element"
  ram :: "u64 \<Rightarrow> u8"
  pool :: "u64 list"
  huge_pool :: "u64 list"
  given_back :: "(u64 \<times> u64) list"

text \<open>
  Modelled from the spec: \<^verbatim>\<open>make_leaf_pte\<close> is one of the architecture's entry
  constructors, which section 8 of the specification lists as a collaborator; its
  code is not among the sources. The entry it builds for a permission is present
  when the permission is not empty, and writable and executable as the permission
  says; \<^verbatim>\<open>populate\<close> passes the address 0 and the provider sets the page's.
\<close>

definition make_leaf_pte :: "bool \<Rightarrow> u32 \<Rightarrow> pt_element" where
  "make_leaf_pte large perm =
     \<lparr>pte_valid = (perm \<noteq> 0), pte_writable = (perm AND perm_write \<noteq> 0),
      pte_executable = (perm AND perm_exec \<noteq> 0), pte_dirty = True,
      pte_large = large, pte_addr = 0, pte_cow = False, pte_rsvd = False\<rparr>"

text \<open>
  \<^verbatim>\<open>populate::skip\<close> and \<^verbatim>\<open>populate::page\<close> for one leaf entry: an entry that
  is not empty is left as it is, unless the walk is for a write and the entry is not
  writable; else the provider's \<^verbatim>\<open>map\<close> is called with the entry to install.
  \<open>page\<close> is the allocator's answer, should the provider ask. The result is what
  \<^verbatim>\<open>page\<close> returns (false when \<^verbatim>\<open>map\<close> threw), whether the allocator was
  asked, and the state; \<open>None\<close> for a file's provider, whose \<^verbatim>\<open>map\<close> is outside
  the model.
\<close>

definition populate_skip :: "pt_element \<Rightarrow> bool \<Rightarrow> bool" where
  "populate_skip pte write = (if pte = make_empty_pte then False else \<not> write \<or> pte_writable pte)"

definition populate_page ::
  "page_allocator \<Rightarrow> u32 \<Rightarrow> bool \<Rightarrow> bool \<Rightarrow> bool \<Rightarrow> u64 option \<Rightarrow> page_state \<Rightarrow>
   (bool \<times> bool \<times> page_state) option" where
  "populate_page ops perm write map_dirty large page st =
     (if populate_skip (slot st) write then Some (True, False, st)
      else
        (case provider_map ops page (if large then huge_page_size else page_size)
                ((make_leaf_pte large perm)\<lparr>pte_dirty := map_dirty \<or> write\<rparr>) st of
           None \<Rightarrow> None
         | Some (None, st') \<Rightarrow> Some (False, True, st')
         | Some (Some b, st') \<Rightarrow> Some (True, True, st')))"

text \<open>\<^verbatim>\<open>page\<close> at the level-0 entry of the page \<open>x\<close> and at the level-1 entry of the region \<open>B\<close>.\<close>

definition next_page :: "u64 list \<Rightarrow> u64 option" where
  "next_page l = (case l of [] \<Rightarrow> None | a # rest \<Rightarrow> Some a)"

definition populate_leaf0 ::
  "page_allocator \<Rightarrow> u32 \<Rightarrow> bool \<Rightarrow> bool \<Rightarrow> machine \<Rightarrow> u64 \<Rightarrow> (bool \<times> machine) option" where
  "populate_leaf0 ops perm write map_dirty M x =
     map_option (\<lambda>(r, asked, st').
         (r, M\<lparr>pt := (pt M)(x := slot st'), ram := memory st', given_back := freed st',
               pool := (if asked then tl (pool M) else pool M)\<rparr>))
       (populate_page ops perm write map_dirty False (next_page (pool M))
          \<lparr>memory = ram M, slot = pt M x, freed = given_back M\<rparr>)"

definition populate_leaf1 ::
  "page_allocator \<Rightarrow> u32 \<Rightarrow> bool \<Rightarrow> bool \<Rightarrow> machine \<Rightarrow> u64 \<Rightarrow> (bool \<times> machine) option" where
  "populate_leaf1 ops perm write map_dirty M B =
     map_option (\<lambda>(r, asked, st').
         (r, M\<lparr>pd := (pd M)(B := (if slot st' = make_empty_pte then Pd_empty else Pd_large (slot st'))),
               ram := memory st', given_back := freed st',
               huge_pool := (if asked then tl (huge_pool M) else huge_pool M)\<rparr>))
       (populate_page ops perm write map_dirty True (next_page (huge_pool M))
          \<lparr>memory = ram M, slot = (case pd M B of Pd_large p \<Rightarrow> p | _ \<Rightarrow> make_empty_pte),
           freed = given_back M\<rparr>)"

text \<open>
  The bases of the steps of size \<open>step\<close> that the range \<open>[a, b]\<close> touches, in
  order; and a loop over a list that stops at the first \<open>None\<close>.
\<close>

definition steps_of :: "u64 \<Rightarrow> u64 \<Rightarrow> u64 \<Rightarrow> u64 list" where
  "steps_of step a b =
     map (\<lambda>i. align_down a step + of_nat i * step)
       [0..<Suc (unat ((align_down b step - align_down a step) div step))]"

fun over :: "('s \<Rightarrow> 'a \<Rightarrow> 's option) \<Rightarrow> 's option \<Rightarrow> 'a list \<Rightarrow> 's option" where
  "over f None xs = None"
| "over f (Some s) [] = Some s"
| "over f (Some s) (x # xs) = over f (f s x) xs"

text \<open>
  The walker's step from a level-1 entry down to its table, for a walk that allocates
  and splits, as \<^verbatim>\<open>populate\<close> does: an empty entry gets a new table of empty
  entries (\<^verbatim>\<open>allocate_intermediate_level\<close>), a large leaf is split into a table
  whose entries map its 4K pieces (\<^verbatim>\<open>split_large_page\<close>).
\<close>

definition enter_table :: "machine \<Rightarrow> u64 \<Rightarrow> machine" where
  "enter_table M B =
     (case pd M B of
        Pd_empty \<Rightarrow>
          M\<lparr>pd := (pd M)(B := Pd_table),
            pt := (\<lambda>x. if align_down x huge_page_size = B then make_empty_pte else pt M x)\<rparr>
      | Pd_large p \<Rightarrow>
          M\<lparr>pd := (pd M)(B := Pd_table),
            pt := (\<lambda>x. if align_down x huge_page_size = B
                        then p\<lparr>pte_large := False, pte_addr := pte_addr p OR (align_down x page_size - B)\<rparr>
                        else pt M x)\<rparr>
      | Pd_table \<Rightarrow> M)"

text \<open>
  \<^verbatim>\<open>map_level\<close> for \<^verbatim>\<open>populate\<close> (which calls \<^verbatim>\<open>page\<close> on empty entries too)
  at level 0, over the pages of \<open>[a, b]\<close> in the region \<open>B\<close>; and at level 1 for
  the region \<open>B\<close> of the range \<open>[vcur, vend]\<close>: when the range holds the whole
  region and the operation is not \<^verbatim>\<open>populate_small\<close>, a table is descended into
  and any other entry gets \<^verbatim>\<open>page\<close>, with the 4K pages as the fallback when that
  returns false; else the walk goes down to the pages.
\<close>

definition populate_level0 ::
  "page_allocator \<Rightarrow> u32 \<Rightarrow> bool \<Rightarrow> bool \<Rightarrow> machine \<Rightarrow> u64 \<Rightarrow> u64 \<Rightarrow> u64 \<Rightarrow> machine option" where
  "populate_level0 ops perm write map_dirty M B a b =
     over (\<lambda>M' x. map_option snd (populate_leaf0 ops perm write map_dirty M' x))
       (Some (enter_table M B)) (steps_of page_size a b)"

definition populate_region ::
  "page_allocator \<Rightarrow> u32 \<Rightarrow> bool \<Rightarrow> bool \<Rightarrow> bool \<Rightarrow> u64 \<Rightarrow> u64 \<Rightarrow> machine \<Rightarrow> u64 \<Rightarrow> machine option" where
  "populate_region ops perm write map_dirty small vcur vend M B =
     (let a = max vcur B; b = min vend (B + (huge_page_size - 1))
      in if \<not> small \<and> a = B \<and> b = B + (huge_page_size - 1) then
           (case pd M B of
              Pd_table \<Rightarrow> populate_level0 ops perm write map_dirty M B a b
            | _ \<Rightarrow>
                (case populate_leaf1 ops perm write map_dirty M B of
                   None \<Rightarrow> None
                 | Some (True, M') \<Rightarrow> Some M'
                 | Some (False, M') \<Rightarrow> populate_level0 ops perm write map_dirty M' B a b))
         else populate_level0 ops perm write map_dirty M B a b)"

text \<open>
  \<^verbatim>\<open>map_range\<close> with a \<^verbatim>\<open>populate\<close> over \<open>[start, start + sz)\<close>, which
  \<^verbatim>\<open>operate_range\<close> has aligned to pages. A range that wraps around the address
  space is outside the model (\<open>None\<close>).
\<close>

definition populate_range ::
  "page_allocator \<Rightarrow> u32 \<Rightarrow> bool \<Rightarrow> bool \<Rightarrow> bool \<Rightarrow> machine \<Rightarrow> u64 \<Rightarrow> u64 \<Rightarrow> machine option" where
  "populate_range ops perm write map_dirty small M start sz =
     (let vend = start + sz - 1
      in if vend < start then None
         else over (populate_region ops perm write map_dirty small start vend) (Some M)
                (steps_of huge_page_size start vend))"

text \<open>
  What a request does to the machine, for the requests \<^verbatim>\<open>map_anon\<close> sends; the
  other walks are outside this part of the model (\<open>None\<close>).
\<close>

fun walk :: "machine \<Rightarrow> effect \<Rightarrow> machine option" where
  "walk M (Operate_range (Populate small ops perm write map_dirty) vstart start sz) =
     populate_range ops perm write map_dirty small M start sz"
| "walk M (Synchronize_cpu_caches a n) = Some M"
| "walk M e = None"

text \<open>
  Modelled from the spec: what a program's read and write of a byte do, which is the
  processor's part (section 4 of the specification: an entry is present or not).
  The access goes to the page that the present leaf entry of the address points to;
  a write needs a writable entry; any other access faults (\<open>None\<close>).
\<close>

definition load :: "machine \<Rightarrow> u64 \<Rightarrow> u8 option" where
  "load M va =
     (let B = align_down va huge_page_size
      in case pd M B of
           Pd_empty \<Rightarrow> None
         | Pd_large p \<Rightarrow> if pte_valid p \<and> \<not> pte_rsvd p then Some (ram M (pte_addr p + (va - B))) else None
         | Pd_table \<Rightarrow>
             (let p = pt M (align_down va page_size)
              in if pte_valid p \<and> \<not> pte_rsvd p
                 then Some (ram M (pte_addr p + (va - align_down va page_size))) else None))"

definition store :: "machine \<Rightarrow> u64 \<Rightarrow> u8 \<Rightarrow> machine option" where
  "store M va c =
     (let B = align_down va huge_page_size
      in case pd M B of
           Pd_empty \<Rightarrow> None
         | Pd_large p \<Rightarrow>
             if pte_valid p \<and> \<not> pte_rsvd p \<and> pte_writable p
             then Some (M\<lparr>ram := (ram M)(pte_addr p + (va - B) := c)\<rparr>) else None
         | Pd_table \<Rightarrow>
             (let p = pt M (align_down va page_size)
              in if pte_valid p \<and> \<not> pte_rsvd p \<and> pte_writable p
                 then Some (M\<lparr>ram := (ram M)(pte_addr p + (va - align_down va page_size) := c)\<rparr>)
                 else None))"

text \<open>
  The manager and the machine together, and \<^verbatim>\<open>map_anon\<close> on both, with no other
  CPU interfering: the walks the call requests are run on the machine, in order.
  \<open>None\<close> when the call throws or aborts, or a walk is outside the model.
\<close>

record system =
  mmu :: mmu_state
  hw :: machine

definition map_anon_sys ::
  "layout \<Rightarrow> u8 \<Rightarrow> system \<Rightarrow> uintptr_t \<Rightarrow> u64 \<Rightarrow> u32 \<Rightarrow> u32 \<Rightarrow> (uintptr_t \<times> system) option" where
  "map_anon_sys L cpu S addr sz flags perm =
     (case map_anon L cpu [] (mmu S) addr sz flags perm of
        Some (Inr (v, s')) \<Rightarrow>
          map_option (\<lambda>M. (v, \<lparr>mmu = s', hw = M\<rparr>))
            (over walk (Some (hw S)) (drop (length (effects (mmu S))) (effects s')))
      | _ \<Rightarrow> None)"

section \<open>Notions the properties are stated with\<close>

text \<open>A byte is mapped when a VMA of some worker's registry covers it.\<close>

definition covered_by :: "vma \<Rightarrow> uintptr_t \<Rightarrow> bool" where
  "covered_by v x = (vma_start v \<le> x \<and> x < vma_end v)"

definition mapped_byte :: "superblock_manager \<Rightarrow> uintptr_t \<Rightarrow> bool" where
  "mapped_byte m x = list_ex (\<lambda>w. list_ex (\<lambda>v. covered_by v x) (vma_list w)) (workers m)"



text \<open>
  The bytes \<^verbatim>\<open>mincore\<close> writes for the pointers \<open>p, p + 4096, \<dots>\<close> below \<open>e\<close>: one
  for each 4K step, 1 when \<^verbatim>\<open>safe_load\<close> can read the pointer.
\<close>

definition mincore_bytes :: "collaborators \<Rightarrow> uintptr_t \<Rightarrow> uintptr_t \<Rightarrow> u8 list" where
  "mincore_bytes env p e =
     map (\<lambda>i. if safe_load env (p + of_nat i * page_size) then 1 else 0)
       [0..<(unat e - unat p + 4095) div 4096]"

text \<open>
  The pages a trace frees, in order, and the pages an \<^verbatim>\<open>unpopulate\<close> walk hands to
  its gather: those whose \<^verbatim>\<open>unmap\<close> answered true.
\<close>

fun freed_pages :: "tlb_event list \<Rightarrow> tlb_event list" where
  "freed_pages [] = []"
| "freed_pages (Unmapped a ok # tr) = freed_pages tr"
| "freed_pages (Flush_tlb_all # tr) = freed_pages tr"
| "freed_pages (e # tr) = e # freed_pages tr"

definition gathered :: "(u64 \<times> u64 \<times> bool) list \<Rightarrow> (u64 \<times> u64) list" where
  "gathered leaves = map (\<lambda>(a, sz, ok). (a, sz)) (filter (\<lambda>(a, sz, ok). ok) leaves)"

text \<open>
  The invariant of the walk: the gather is within its array; the trace so far allowed
  every free, and the pages it leaves flushed or pending are the gathered ones, in
  order; a stale unmapping has set \<open>do_flush\<close>; the unmappings are those of the
  leaves; and the pages freed so far followed by the gathered ones are the pages
  handed over.
\<close>

definition unpop_inv :: "(u64 \<times> u64 \<times> bool) list \<Rightarrow> unpopulate_op \<Rightarrow> bool" where
  "unpop_inv leaves u =
     (nr_pages (gather u) \<le> max_pages \<and> length (pages (gather u)) = max_pages \<and>
      (case foldl trace_step (Some ([], [], False)) (trace u) of
         None \<Rightarrow> False
       | Some (pend, fl, stale) \<Rightarrow>
           fl @ pend = map fst (take (nr_pages (gather u)) (pages (gather u))) \<and>
           (\<not> stale \<or> do_flush u)) \<and>
      unmappings (trace u) = map (\<lambda>(a, sz, ok). (a, ok)) leaves \<and>
      freed_pages (trace u) @ map free_event (take (nr_pages (gather u)) (pages (gather u)))
        = map free_event (gathered leaves))"

subsection \<open>Concrete states\<close>

text \<open>
  Collaborators whose \<^verbatim>\<open>safe_load\<close> reads everything, with the kernel image at
  \<open>0x40200000\<close>, the linear map from \<open>main_mem_area_base\<close> and the VMA objects
  in the heap, which lies in the linear map; the state after
  boot; the state after an anonymous read-write VMA was inserted at \<open>[0x1000, 0x3000)\<close>;
  a populated writable entry; a read access; a page state with stale bytes; and the
  file VMA that \<^verbatim>\<open>file_vma\<close> builds for \<open>[0x200000, 0x600000)\<close> of the example
  file when no flag is asked for.
\<close>

definition example_env :: collaborators where
  "example_env =
     \<lparr>safe_load = (\<lambda>a. True), elf_start = 0x40200000, elf_size = 0x800000,
      phys_mem = 0x400000000000,
      dirty_cleaner_walk = (\<lambda>v a n. Inr 0), sys_fsync = (\<lambda>f. None), file_sync = (\<lambda>f a b. None),
      vma_object = (\<lambda>k. 0x400001000000 + drop_bit 5 k)\<rparr>"

definition boot_state :: mmu_state where
  "boot_state = \<lparr>sb_mgr = superblock_manager_ctor example_layout, effects = []\<rparr>"

definition mapped_state :: mmu_state where
  "mapped_state =
     (case insert example_layout (superblock_manager_ctor example_layout)
             (anon_vma (0x1000, 0x3000) (perm_read OR perm_write) 0) of
        Inr m \<Rightarrow> \<lparr>sb_mgr = m, effects = []\<rparr>
      | Inl e \<Rightarrow> boot_state)"




definition dirty_state :: page_state where
  "dirty_state = \<lparr>memory = (\<lambda>x. 0xAB), slot = make_empty_pte, freed = []\<rparr>"

definition example_file_vma :: vma where
  "example_file_vma =
     \<lparr>vma_start = 0x200000, vma_end = 0x600000, vma_perm = perm_read, vma_flags = mmap_small,
      vma_map_dirty = True, vma_page_ops = Map_file_page_read example_file 0,
      vma_variant = File_vma example_file 0 7 1\<rparr>"


text \<open>
  The system after boot: an empty page table, memory full of stale bytes \<open>0xAB\<close>,
  and an allocator with six pages to give. Then a run of CPU 0 on it: two populated
  anonymous mappings of one page each, of which the second is the last page of
  superblock 0; the program writes \<open>0x5A\<close> to the second; a populated mapping of
  one page at the fixed address \<open>0x3FFF00002000\<close>, in the middle of the free range
  between the two; and a populated mapping of two pages.
\<close>

definition boot_system :: system where
  "boot_system =
     \<lparr>mmu = boot_state,
      hw = \<lparr>pd = (\<lambda>x. Pd_empty), pt = (\<lambda>x. make_empty_pte), ram = (\<lambda>x. 0xAB),
            pool = [0x5000, 0x6000, 0x7000, 0x8000, 0x9000, 0xA000], huge_pool = [], given_back = []\<rparr>\<rparr>"

definition stale_run :: "(uintptr_t \<times> system) option" where
  "stale_run =
     (case map_anon_sys example_layout 0 boot_system 0 0x1000 mmap_populate (perm_read OR perm_write) of
        None \<Rightarrow> None
      | Some (v1, S1) \<Rightarrow>
     (case map_anon_sys example_layout 0 S1 0 0x1000 mmap_populate (perm_read OR perm_write) of
        None \<Rightarrow> None
      | Some (v2, S2) \<Rightarrow>
     (case store (hw S2) v2 0x5A of
        None \<Rightarrow> None
      | Some M \<Rightarrow>
     (case map_anon_sys example_layout 0 (S2\<lparr>hw := M\<rparr>) 0x3FFF00002000 0x1000
             (mmap_fixed OR mmap_populate) (perm_read OR perm_write) of
        None \<Rightarrow> None
      | Some (v3, S3) \<Rightarrow>
          map_anon_sys example_layout 0 S3 0 0x2000 mmap_populate (perm_read OR perm_write)))))"


section \<open>Properties of the superblock manager\<close>

text \<open>
  C1. The claim: for \<open>n \<ge> 1\<close>, once \<^verbatim>\<open>allocate_superblocks(n)\<close> has found
  \<open>n\<close> consecutive free slots it claims each of them by compare-and-swap, releases
  exactly the claimed ones when a compare-and-swap loses, and retries. The code leaves
  its claiming loop after the first winning compare-and-swap: on the freshly
  constructed array, with no other CPU running, CPU 0 asking for two superblocks gets
  index 0 back while slot 1 is still free.
\<close>

theorem allocate_superblocks_claims_first_slot_only:
  "allocate_superblocks example_layout 0 2 []
     (superblocks (superblock_manager_ctor example_layout)) =
   Some (Inr 0, [0, FREE, FREE, FREE])"
  by code_simp

text \<open>
  The other path of the same function: when another CPU (here CPU 3) takes the slot
  first, the call \<^verbatim>\<open>release_superblocks(i - n, j - i - n)\<close> gets the index
  \<open>2 ^ 32 - 1\<close> and the count \<open>2 ^ 32 - 1\<close> for \<open>n = 1\<close> at \<open>i = 0\<close>, and
  indexes the array out of bounds.
\<close>

lemma allocate_superblocks_lost_cas_out_of_bounds:
  "allocate_superblocks example_layout 0 1 [Some 3]
     (superblocks (superblock_manager_ctor example_layout)) =
   Some (Inl Out_of_bounds, [3, FREE, FREE, FREE])"
  by code_simp

text \<open>
  C3. The claim: when a free interval \<open>[b, b + l)\<close> holds \<open>[addr, addr + size)\<close>,
  \<^verbatim>\<open>allocate_range(addr, size)\<close> leaves \<open>[b, addr)\<close> and
  \<open>[addr + size, b + l)\<close> free. On the freshly constructed manager, whose shared
  worker (index 64) holds the free interval \<open>[0, superblock_area_base)\<close>, allocating
  the page at \<open>0x200000\<close> keys the remaining tail at \<open>0x401000\<close> instead of
  \<open>0x201000\<close>: the address right behind the allocated page is no longer free.
\<close>

theorem allocate_range_middle_misplaces_tail:
  "(case allocate_range example_layout (superblock_manager_ctor example_layout) 0x200000 0x1000 of
      Inl e \<Rightarrow> False
    | Inr m \<Rightarrow>
        free_ranges (workers m ! 64) =
          [(0, 0x200000), (0x401000, 0x3FFEFFDFF000), (0x400000000000, 0x7FFFC00000000000)]
        \<and> \<not> covers (free_ranges (workers m ! 64)) 0x201000)"
  by code_simp

text \<open>
  C5. The claim: the tuples of \<^verbatim>\<open>generate_owner_list(start, size)\<close> are contiguous,
  their lengths sum to \<open>size\<close>, and every address of a tuple has the tuple's owner.
  For a range of 1 GiB that starts in the middle of superblock 0 (owned by CPU 0) and
  ends in the middle of superblock 1 (owned by CPU 1) the code returns a first tuple
  of the full 1 GiB, which overlaps the second one; the lengths sum to 1.5 GiB.
\<close>

theorem generate_owner_list_unaligned_start_overlaps:
  "generate_owner_list example_layout two_owners 0x3FFF20000000 0x40000000 =
     Some (Inr [(0x3FFF20000000, 0x40000000, 0), (0x3FFF40000000, 0x20000000, 1)])"
  by code_simp

section \<open>Words and alignment\<close>

lemma and_not_and: "(y AND NOT m) AND m = (0 :: 64 word)"
  by (simp add: and.assoc)

lemma aligned_unat_dvd:
  fixes e :: "64 word"
  assumes "e AND 4095 = 0"
  shows "4096 dvd unat e"
proof -
  have "take_bit 12 e = 0"
    using assms by (simp add: take_bit_eq_mask mask_eq_exp_minus_1)
  then have "take_bit 12 (unat e) = 0"
    by (metis unsigned_take_bit_eq unsigned_0)
  then show ?thesis
    by (simp add: take_bit_eq_mod dvd_eq_mod_eq_0)
qed

lemma aligned_no_wrap:
  fixes p e :: "64 word"
  assumes "e AND 4095 = 0" and "p < e"
  shows "unat (p + 4096) = unat p + 4096"
proof -
  from aligned_unat_dvd [OF assms(1)] obtain k where k: "unat e = 4096 * k"
    by (auto simp: dvd_def)
  have "unat e < 2 ^ 64"
    using unsigned_less [of e] by simp
  with k have "k < 2 ^ 52" by simp
  then have "k \<le> 2 ^ 52 - 1" by simp
  with k have "unat e \<le> 2 ^ 64 - 4096" by simp
  moreover from assms(2) have "unat p < unat e"
    by (simp add: word_less_nat_alt)
  ultimately have "unat p + unat (4096 :: 64 word) < 2 ^ LENGTH(64)"
    by simp
  then have "unat (p + 4096) = unat p + unat (4096 :: 64 word)"
    by (simp only: unat_add_lem [THEN iffD1])
  then show ?thesis by simp
qed



lemma page_count_step: fixes a b c :: nat assumes lt: "b < a" and nw: "c = b + 4096"
  shows "(a - b + 4095) div 4096 = Suc ((a - c + 4095) div 4096)"
proof (cases "a - b \<ge> 4096")
  case True
  then have "a - b + 4095 = (a - c + 4095) + 4096" using nw by simp
  then show ?thesis by simp
next
  case False
  with lt nw have "a - c = 0" "a - b + 4095 < 2 * 4096" "4096 \<le> a - b + 4095" by simp_all
  then show ?thesis by simp
qed
lemma align_up_aligned: "align_up x page_size AND 4095 = 0"
  by (simp add: align_up_def align_down_def page_size_def and.assoc)











section \<open>Properties of page faults and providers\<close>

lemma has_small: "has_flags (vma_ctor rng perm (flags OR mmap_small) d ops k) mmap_small"
  by (simp add: has_flags_def vma_ctor_def mmap_small_def word_ao_absorbs)

lemma has_flags_or: "has_flags v flag \<Longrightarrow> has_flags (update_flags v fl) flag"
proof -
  assume "has_flags v flag"
  then have "vma_flags v AND flag \<noteq> 0"
    by (simp add: has_flags_def)
  then have "(vma_flags v AND flag) OR (fl AND flag) \<noteq> 0"
    by (simp add: or_eq_0_iff)
  then show ?thesis
    by (simp add: has_flags_def update_flags_def bit.conj_disj_distrib2)
qed

text \<open>
  C4, as amended. The claim: a fault in a file-backed VMA created without the small
  flag, inside the huge-page-aligned interior and with the file reaching past the huge
  page, populates one huge page, and every other fault populates one 4K page. The
  constructor of \<^verbatim>\<open>file_vma\<close> adds the small flag to whatever flags it is given,
  and \<^verbatim>\<open>set\<close>, \<^verbatim>\<open>protect\<close> and \<^verbatim>\<open>update_flags\<close> keep it; so for a file VMA
  the handler delivers \<^verbatim>\<open>SIGBUS\<close> when the file offset of the address is at or past
  the file size, and populates one 4K page (with \<^verbatim>\<open>populate_small\<close>) otherwise.
\<close>

theorem file_vma_fault_small:
  "(file_vma rng perm flags f offset ops = Inr v \<longrightarrow>
      has_flags v mmap_small \<and> vma_variant v = File_vma f offset (st_ino f) (st_dev f))
   \<and> (has_flags v mmap_small \<longrightarrow>
        has_flags (vma_set v a b) mmap_small \<and> has_flags (vma_protect v p) mmap_small \<and>
        has_flags (update_flags v fl) mmap_small)
   \<and> (has_flags v mmap_small \<and> vma_variant v = File_vma f off ino dev \<longrightarrow>
        fault v addr write =
          (if f_size f \<le> file_offset v off addr then [Handle_mmap_fault addr SIGBUS]
           else populate_vma v addr page_size write))"
proof -
  have 1: "file_vma rng perm flags f offset ops = Inr v \<longrightarrow>
      has_flags v mmap_small \<and> vma_variant v = File_vma f offset (st_ino f) (st_dev f)"
  proof
    assume "file_vma rng perm flags f offset ops = Inr v"
    then have v: "v = (vma_ctor rng perm (flags OR mmap_small) (\<not> (flags AND mmap_shared \<noteq> 0)) ops
                (File_vma f offset 0 0))\<lparr>vma_variant := File_vma f offset (st_ino f) (st_dev f)\<rparr>"
      by (auto simp: file_vma_def Let_def split: option.splits if_splits)
    have "has_flags v mmap_small"
      unfolding v using has_small [of rng perm flags] by (simp add: has_flags_def)
    moreover have "vma_variant v = File_vma f offset (st_ino f) (st_dev f)"
      by (simp add: v)
    ultimately show "has_flags v mmap_small \<and> vma_variant v = File_vma f offset (st_ino f) (st_dev f)"
      by (rule conjI)
  qed
  have 2: "has_flags v mmap_small \<longrightarrow>
        has_flags (vma_set v a b) mmap_small \<and> has_flags (vma_protect v p) mmap_small \<and>
        has_flags (update_flags v fl) mmap_small"
    using has_flags_or [of v mmap_small fl]
    by (simp add: has_flags_def vma_set_def vma_protect_def)
  have 3: "has_flags v mmap_small \<and> vma_variant v = File_vma f off ino dev \<longrightarrow>
        fault v addr write =
          (if f_size f \<le> file_offset v off addr then [Handle_mmap_fault addr SIGBUS]
           else populate_vma v addr page_size write)"
    by (simp add: fault_def file_vma_fault_def Let_def)
  show ?thesis
    by (rule conjI [OF 1 conjI [OF 2 3]])
qed

text \<open>
  The theorem at the example file: the VMA built for \<open>[0x200000, 0x600000)\<close> with no
  flag carries the small flag, and a read fault at \<open>0x200000\<close> asks
  \<^verbatim>\<open>populate_small\<close> for the 4K page there.
\<close>

theorem file_vma_fault_small_witness:
  "file_vma (0x200000, 0x600000) perm_read 0 example_file 0 (Map_file_page_read example_file 0)
     = Inr example_file_vma \<and>
   has_flags example_file_vma mmap_small \<and>
   fault example_file_vma 0x200000 False =
     [Operate_range (Populate True (Map_file_page_read example_file 0) perm_read False True)
        0x200000 0x200000 0x1000]"
proof -
  have c: "file_vma (0x200000, 0x600000) perm_read 0 example_file 0 (Map_file_page_read example_file 0)
        = Inr example_file_vma"
    by code_simp
  have k: "vma_variant example_file_vma = File_vma example_file 0 7 1"
    by code_simp
  have "f_size example_file \<le> file_offset example_file_vma 0 0x200000 \<longleftrightarrow> False"
    by code_simp
  moreover have "populate_vma example_file_vma 0x200000 page_size False =
     [Operate_range (Populate True (Map_file_page_read example_file 0) perm_read False True)
        0x200000 0x200000 0x1000]"
    by code_simp
  ultimately show ?thesis
    using c k
      file_vma_fault_small [of "(0x200000, 0x600000)" perm_read 0 example_file 0
        "Map_file_page_read example_file 0" example_file_vma 0 0 0 0 0 7 1 "0x200000" False]
    by simp
qed

text \<open>
  The claim as stated fails: the VMA the file's \<^verbatim>\<open>mmap\<close> method builds for
  \<open>[0x200000, 0x600000)\<close> of the 16 MiB example file was asked for without the small
  flag, \<open>0x200000\<close> lies in its huge-page-aligned interior and the file reaches past
  the end of the huge page, yet the fault populates a 4K page, not a huge page.
\<close>

theorem file_fault_huge_page_counterexample:
  "(case file_mmap example_file (0x200000, 0x600000) 0 perm_read 0 of
      Inl e \<Rightarrow> False
    | Inr v \<Rightarrow>
        (0 :: u32) AND mmap_small = 0
        \<and> align_up (vma_start v) huge_page_size \<le> 0x200000
        \<and> 0x200000 < align_down (vma_end v) huge_page_size
        \<and> file_offset v 0 (0x200000 + huge_page_size) < f_size example_file
        \<and> fault v 0x200000 False \<noteq> populate_vma v (align_down 0x200000 huge_page_size) huge_page_size False
        \<and> fault v 0x200000 False = populate_vma v 0x200000 page_size False)"
  by code_simp

text \<open>
  The provider's part: an \<^verbatim>\<open>anon_vma\<close> built from flags without
  \<^verbatim>\<open>mmap_uninitialized\<close> has the initialized provider, and when that provider's
  \<^verbatim>\<open>map\<close> installs a page of \<open>sz\<close> bytes (4K or huge), the entry was empty, it
  now points to the page, and every byte of the page is zero in the state the entry
  is installed in.
\<close>

lemma init_anon_zero_filled:
  assumes "flags AND mmap_uninitialized = 0"
    and "provider_map (vma_page_ops (anon_vma rng perm flags)) page sz pte st = Some (Some True, st')"
  shows "vma_page_ops (anon_vma rng perm flags) = Initialized_anonymous_page_provider \<and>
         (\<exists>a. page = Some a \<and> slot st = make_empty_pte \<and> slot st' = pte\<lparr>pte_addr := a\<rparr> \<and>
              (\<forall>x. x - a < sz \<longrightarrow> memory st' x = 0))"
proof -
  have ops: "vma_page_ops (anon_vma rng perm flags) = Initialized_anonymous_page_provider"
    using assms(1) by (simp add: anon_vma_def vma_ctor_def)
  with assms(2) have m: "anon_map True page sz pte st = (Some True, st')"
    by (simp add: provider_map_def)
  then obtain a where a: "page = Some a"
    by (cases page) (auto simp: anon_map_def set_pte_def)
  from m a have "slot st = make_empty_pte"
    and "st' = st\<lparr>memory := memset (memory st) a 0 sz, slot := pte\<lparr>pte_addr := a\<rparr>\<rparr>"
    by (auto simp: anon_map_def set_pte_def fill_def split: if_splits)
  then show ?thesis
    using ops a by (simp add: memset_def)
qed

text \<open>
  At a page whose bytes were all \<open>0xAB\<close>: after the map the byte at \<open>0x5010\<close>
  reads zero.
\<close>

lemma init_anon_zero_filled_example:
  "vma_page_ops (anon_vma (0x1000, 0x2000) perm_read 0) = Initialized_anonymous_page_provider \<and>
   (\<exists>st'. provider_map (vma_page_ops (anon_vma (0x1000, 0x2000) perm_read 0)) (Some 0x5000) page_size
            make_empty_pte dirty_state = Some (Some True, st') \<and>
          memory dirty_state 0x5010 = 0xAB \<and> memory st' 0x5010 = 0)"
proof -
  let ?st' = "dirty_state\<lparr>memory := memset (memory dirty_state) 0x5000 0 page_size,
                          slot := make_empty_pte\<lparr>pte_addr := 0x5000\<rparr>\<rparr>"
  have f: "(0 :: u32) AND mmap_uninitialized = 0" by simp
  have p: "provider_map (vma_page_ops (anon_vma (0x1000, 0x2000) perm_read 0)) (Some 0x5000) page_size
            make_empty_pte dirty_state = Some (Some True, ?st')"
    by (simp add: provider_map_def anon_vma_def vma_ctor_def anon_map_def set_pte_def fill_def dirty_state_def)
  from init_anon_zero_filled [OF f p] have "memory ?st' 0x5010 = 0"
    by (auto simp: page_size_def)
  with p init_anon_zero_filled [OF f p] show ?thesis
    by (simp add: dirty_state_def)
qed

text \<open>
  The first populated mapping of the run reads as zero, from its first byte to its
  last, and the byte after it faults.
\<close>

lemma map_anon_fresh_reads_zero:
  "(case map_anon_sys example_layout 0 boot_system 0 0x1000 mmap_populate (perm_read OR perm_write) of
      Some (v, S) \<Rightarrow>
        v = 0x3FFF00000000 \<and> load (hw S) v = Some 0 \<and> load (hw S) (v + 0xFFF) = Some 0
        \<and> load (hw S) (v + 0x1000) = None \<and> ram (hw boot_system) 0x5000 = 0xAB
    | None \<Rightarrow> False)"
  by code_simp

text \<open>
  C7. The claim: memory mapped by \<^verbatim>\<open>map_anon\<close> without the uninitialized flag
  reads as zero when populated. The code does not do this after a fixed mapping in
  the middle of a free range. In the run of CPU 0, the fixed mapping at
  \<open>0x3FFF00002000\<close> makes \<^verbatim>\<open>allocate_range\<close> key the rest of the free range
  \<open>[0x3FFF00001000, 0x3FFF3FFFF000)\<close> at \<open>0x3FFF00004000\<close>, so that it reaches
  over the live page at \<open>0x3FFF3FFFF000\<close>, to which the program wrote \<open>0x5A\<close>.
  The next \<^verbatim>\<open>map_anon\<close>, for two pages with \<^verbatim>\<open>mmap_populate\<close> and without
  \<^verbatim>\<open>mmap_uninitialized\<close>, gets \<open>[0x3FFF3FFFE000, 0x3FFF40000000)\<close> from
  \<^verbatim>\<open>reserve_range\<close>; its populate walk zero-fills a new page for the first page
  and skips the second, whose entry is present; the second page of the new mapping
  reads \<open>0x5A\<close>.
\<close>

theorem map_anon_reads_stale_byte:
  "(case stale_run of
      Some (v, S) \<Rightarrow>
        v = 0x3FFF3FFFE000
        \<and> (mmap_populate :: u32) AND mmap_uninitialized = 0
        \<and> load (hw S) v = Some 0
        \<and> load (hw S) (v + 0x1000) = Some 0x5A
        \<and> free_ranges (workers (sb_mgr (mmu S)) ! 0) = [(0x3FFF00001000, 0x1000), (0x3FFF00004000, 0x3FFFA000)]
        \<and> map (\<lambda>x. (vma_start x, vma_end x)) (vma_list (workers (sb_mgr (mmu S)) ! 0))
            = [(0, 0), (0x3FFF00000000, 0x3FFF00001000), (0x3FFF00002000, 0x3FFF00003000),
               (0x3FFF3FFFE000, 0x3FFF40000000), (0x3FFF3FFFF000, 0x3FFF40000000),
               (0x400000000000, 0x400000000000)]
    | None \<Rightarrow> False)"
  by code_simp

section \<open>Properties of unpopulate\<close>

lemma trace_step_frees:
  "foldl trace_step (Some (pend, map fst xs @ r, stale)) (map free_event xs) = Some (pend, r, stale)"
  by (induction xs) (simp_all add: free_event_def)

lemma freed_pages_append: "freed_pages (xs @ ys) = freed_pages xs @ freed_pages ys"
  by (induction xs rule: freed_pages.induct) auto

lemma freed_pages_frees: "freed_pages (map free_event xs) = map free_event xs"
  by (induction xs) (auto simp: free_event_def)

lemma unmappings_append: "unmappings (xs @ ys) = unmappings xs @ unmappings ys"
  by (induction xs rule: unmappings.induct) auto

lemma unmappings_frees: "unmappings (map free_event xs) = []"
  by (induction xs) (auto simp: free_event_def)

lemma unpop_inv_init: "unpop_inv [] unpopulate_init"
  by (simp add: unpop_inv_def unpopulate_init_def tlb_gather_init_def gathered_def)

lemma unpop_inv_step:
  assumes "unpop_inv leaves u"
  shows "unpop_inv (leaves @ [leaf]) (unpopulate_page u leaf)"
proof -
  obtain a sz ok where leaf: "leaf = (a, sz, ok)" by (cases leaf)
  from assms obtain pend fl stale
    where n: "nr_pages (gather u) \<le> max_pages" and l: "length (pages (gather u)) = max_pages"
      and r: "foldl trace_step (Some ([], [], False)) (trace u) = Some (pend, fl, stale)"
      and g: "fl @ pend = map fst (take (nr_pages (gather u)) (pages (gather u)))"
      and d: "\<not> stale \<or> do_flush u"
      and m: "unmappings (trace u) = map (\<lambda>(a, sz, ok). (a, ok)) leaves"
      and f: "freed_pages (trace u) @ map free_event (take (nr_pages (gather u)) (pages (gather u)))
        = map free_event (gathered leaves)"
    by (auto simp: unpop_inv_def split: option.splits)
  show ?thesis
  proof (cases ok)
    case False
    with n l r g d m f show ?thesis
      by (simp add: unpop_inv_def unpopulate_page_def leaf gathered_def freed_pages_append unmappings_append)
  next
    case True
    show ?thesis
    proof (cases "nr_pages (gather u) = max_pages")
      case full: True
      let ?old = "take max_pages (pages (gather u))"
      have gg: "fl @ pend @ [a] = map fst ?old @ [a]"
        using g full by (simp flip: append_assoc)
      have "foldl trace_step (Some ([], [], False))
              (trace u @ [Unmapped a True] @ [Flush_tlb_all] @ map free_event ?old)
            = foldl trace_step (Some ([], map fst ?old @ [a], False)) (map free_event ?old)"
        using r by (simp add: gg)
      also have "\<dots> = Some ([], [a], False)"
        by (rule trace_step_frees)
      finally have r': "foldl trace_step (Some ([], [], False))
              (trace u @ [Unmapped a True] @ [Flush_tlb_all] @ map free_event ?old)
            = Some ([], [a], False)" .
      have t: "take (Suc 0) ((pages (gather u))[0 := (a, sz)]) = [(a, sz)]"
        using l by (cases "pages (gather u)") (simp_all add: max_pages_def)
      from True full l m f r' t show ?thesis
        by (simp add: unpop_inv_def unpopulate_page_def leaf gathered_def tlb_push_def tlb_flush_def
            max_pages_def freed_pages_append freed_pages_frees unmappings_append unmappings_frees)
    next
      case False
      with n have lt: "nr_pages (gather u) < max_pages" by simp
      with l have "take (Suc (nr_pages (gather u))) ((pages (gather u))[nr_pages (gather u) := (a, sz)])
          = take (nr_pages (gather u)) (pages (gather u)) @ [(a, sz)]"
        by (simp add: take_Suc_conv_app_nth)
      with True False lt l r g m f show ?thesis
        by (simp add: unpop_inv_def unpopulate_page_def leaf gathered_def tlb_push_def
            freed_pages_append unmappings_append)
    qed
  qed
qed

lemma unpop_inv_foldl: "unpop_inv ls u \<Longrightarrow> unpop_inv (ls @ leaves) (foldl unpopulate_page u leaves)"
proof (induction leaves arbitrary: ls u)
  case Nil
  then show ?case by simp
next
  case (Cons leaf leaves)
  from Cons.IH [OF unpop_inv_step [OF Cons.prems, of leaf]] show ?case by simp
qed

text \<open>
  C9. During \<^verbatim>\<open>unpopulate\<close> a backing page removed from the page table is never
  freed before a global TLB flush has been issued. For every sequence of leaf entries
  the walker visits, in the trace of the whole \<^verbatim>\<open>operate_range\<close>: the unmappings
  are those of the leaves, in order; every free is of a page of the walker's that was
  unmapped and then followed by \<^verbatim>\<open>flush_tlb_all\<close>, each such page is freed once,
  none is left when \<^verbatim>\<open>operate_range\<close> returns, and a flush follows every
  unmapping; the gather is empty at the end; and the pages freed, by \<^verbatim>\<open>free_page\<close>
  or \<^verbatim>\<open>free_huge_page\<close> as their size says, are exactly the pages handed to the
  gather, those still batched at the walker's exit included.
\<close>

theorem unpopulate_frees_after_flush:
  "unmappings (trace (operate_range_unpopulate leaves)) = map (\<lambda>(a, sz, ok). (a, ok)) leaves \<and>
   freed_after_flush (trace (operate_range_unpopulate leaves)) \<and>
   nr_pages (gather (operate_range_unpopulate leaves)) = 0 \<and>
   freed_pages (trace (operate_range_unpopulate leaves)) = map free_event (gathered leaves)"
proof -
  let ?u = "foldl unpopulate_page unpopulate_init leaves"
  let ?g = "take (nr_pages (gather ?u)) (pages (gather ?u))"
  have "unpop_inv leaves ?u"
    using unpop_inv_foldl [OF unpop_inv_init, of leaves] by simp
  then obtain pend fl stale
    where r: "foldl trace_step (Some ([], [], False)) (trace ?u) = Some (pend, fl, stale)"
      and g: "fl @ pend = map fst ?g"
      and d: "\<not> stale \<or> do_flush ?u"
      and m: "unmappings (trace ?u) = map (\<lambda>(a, sz, ok). (a, ok)) leaves"
      and f: "freed_pages (trace ?u) @ map free_event ?g = map free_event (gathered leaves)"
    by (auto simp: unpop_inv_def split: option.splits)
  show ?thesis
  proof (cases "nr_pages (gather ?u) = 0")
    case True
    with g have e: "pend = []" "fl = []" by simp_all
    from True r e d m f show ?thesis
      by (auto simp: operate_range_unpopulate_def tlb_flush_needed_def tlb_flush_def Let_def
          freed_after_flush_def freed_pages_append unmappings_append)
  next
    case False
    have "foldl trace_step (Some ([], [], False)) (trace ?u @ [Flush_tlb_all] @ map free_event ?g)
          = foldl trace_step (Some ([], map fst ?g @ [], False)) (map free_event ?g)"
      using r g by simp
    also have "\<dots> = Some ([], [], False)"
      by (rule trace_step_frees)
    finally have "freed_after_flush (trace ?u @ [Flush_tlb_all] @ map free_event ?g)"
      by (simp add: freed_after_flush_def)
    with False m f show ?thesis
      by (simp add: operate_range_unpopulate_def tlb_flush_needed_def tlb_flush_def Let_def
          freed_pages_append freed_pages_frees unmappings_append unmappings_frees)
  qed
qed

text \<open>
  A run over three leaves: a 4K page, a huge page, and a page the provider keeps. Both
  gathered pages are freed after the one flush at the walker's exit. A trace that
  frees a page with no flush after its unmapping is not accepted.
\<close>

lemma unpopulate_example_run:
  "trace (operate_range_unpopulate [(0x1000, 0x1000, True), (0x200000, 0x200000, True), (0x5000, 0x1000, False)])
   = [Unmapped 0x1000 True, Unmapped 0x200000 True, Unmapped 0x5000 False, Flush_tlb_all,
      Free_page 0x1000, Free_huge_page 0x200000 0x200000]"
  by code_simp

lemma free_without_flush_refused:
  "\<not> freed_after_flush [Unmapped 0x1000 True, Free_page 0x1000]"
  "\<not> freed_after_flush [Unmapped 0x1000 True, Free_page 0x1000, Flush_tlb_all]"
  "\<not> freed_after_flush [Flush_tlb_all, Unmapped 0x1000 True, Free_page 0x1000]"
  "\<not> freed_after_flush [Free_page 0x1000]"
  "\<not> freed_after_flush [Unmapped 0x1000 True, Flush_tlb_all]"
  "\<not> freed_after_flush [Unmapped 0x1000 True, Flush_tlb_all, Free_page 0x1000, Free_page 0x1000]"
  "\<not> freed_after_flush [Unmapped 0x5000 False]"
  "freed_after_flush [Unmapped 0x1000 True, Flush_tlb_all, Free_page 0x1000]"
  by (simp_all add: freed_after_flush_def)

section \<open>Properties of split\<close>










section \<open>Properties of the range checks\<close>

lemma ismapped_loop_covered:
  "ismapped_loop ps start e \<Longrightarrow> start \<le> x \<Longrightarrow> x < e \<Longrightarrow> \<exists>p\<in>set ps. covered_by p x"
proof (induction ps start e rule: ismapped_loop.induct)
  case (1 start e)
  then show ?case by simp
next
  case (2 p ps start e)
  show ?case
  proof (cases "x < vma_end p")
    case True
    with 2 show ?thesis
      by (auto simp: covered_by_def split: if_splits)
  next
    case False
    with 2 show ?thesis
      by (auto simp: covered_by_def not_less split: if_splits)
  qed
qed

lemma slice_subset: "set (slice l first second) \<subseteq> set l"
  by (auto simp: slice_def split: option.splits)

lemma worker_at_in_set: "worker_at m i = Inr w \<Longrightarrow> w \<in> set (workers m)"
  by (auto simp: worker_at_def split: if_splits)

lemma ismapped_covered:
  assumes "ismapped L m addr sz = Inr True" and "addr \<le> x" and "x < addr + sz"
  shows "mapped_byte m x"
proof -
  from assms(1) obtain ow vs where iv: "intersecting_vmas L m addr (addr + sz) = Inr (ow, vs)"
    and lp: "ismapped_loop vs addr (addr + sz)"
    by (auto simp: ismapped_def bind_err_def split: sum.splits)
  from iv obtain w :: superblock_worker and first second where w: "worker_at m ow = Inr w"
    and vs: "vs = slice (vma_list w) first second"
    by (auto simp: intersecting_vmas_def bind_err_def split: sum.splits)
  from ismapped_loop_covered [OF lp assms(2,3)] obtain p where "p \<in> set vs" "covered_by p x"
    by blast
  with vs slice_subset have "p \<in> set (vma_list w)"
    by blast
  with \<open>covered_by p x\<close> worker_at_in_set [OF w] show ?thesis
    by (auto simp: mapped_byte_def list_ex_iff)
qed

lemma gap_not_mapped:
  assumes "ismapped L m addr sz = Inr b" and "addr \<le> x" and "x < addr + sz" and "\<not> mapped_byte m x"
  shows "\<not> b"
  using assms ismapped_covered [of L m addr sz x] by (cases b) auto

lemma boot_page_unmapped: "\<not> mapped_byte (sb_mgr boot_state) 0x1000" by code_simp
lemma boot_page_locked: "vma_lock example_layout (sb_mgr boot_state) 0x1000 = Inr ()" by code_simp
lemma boot_page_ismapped: "ismapped example_layout (sb_mgr boot_state) 0x1000 0x1000 = Inr False" by code_simp
lemma align_up_boot_page: "align_up 0x1000 page_size = 0x1000" by code_simp

text \<open>
  Where the address's owner is a worker, so that \<^verbatim>\<open>vma_lock\<close> returns, and the
  lookup of \<^verbatim>\<open>ismapped\<close> returns, a gap is refused: \<^verbatim>\<open>munmap\<close> returns
  \<open>EINVAL\<close> for a gap in the range of the page-aligned length, \<^verbatim>\<open>msync\<close> and
  \<^verbatim>\<open>madvise\<close> return \<open>ENOMEM\<close> for a gap in the range as given, and the state
  is the one the call started in.
\<close>

lemma gap_refused:
  assumes "addr \<le> x" and "\<not> mapped_byte (sb_mgr s) x"
    and "vma_lock L (sb_mgr s) addr = Inr ()"
  shows "(x < addr + align_up len page_size \<and> ismapped L (sb_mgr s) addr (align_up len page_size) = Inr b
            \<longrightarrow> munmap L env s addr len = Inr (Some EINVAL, s))
       \<and> (x < addr + len \<and> ismapped L (sb_mgr s) addr len = Inr b
            \<longrightarrow> msync L env s addr len = Inr (Some ENOMEM, s)
              \<and> advise L env s addr len adv = Inr (Some ENOMEM, s))"
  using assms gap_not_mapped [of L "sb_mgr s" addr "align_up len page_size" b x]
    gap_not_mapped [of L "sb_mgr s" addr len b x]
  by (auto simp: munmap_def msync_def advise_def bind_err_def)

text \<open>
  After boot, for the page at \<open>0x1000\<close>, which the shared worker owns and no VMA
  covers.
\<close>

lemma gap_refused_after_boot:
  "munmap example_layout example_env boot_state 0x1000 0x1000 = Inr (Some EINVAL, boot_state) \<and>
   msync example_layout example_env boot_state 0x1000 0x1000 = Inr (Some ENOMEM, boot_state) \<and>
   advise example_layout example_env boot_state 0x1000 0x1000 Advise_dontneed = Inr (Some ENOMEM, boot_state)"
proof -
  have a: "(0x1000 :: uintptr_t) \<le> 0x1000" by simp
  have b: "(0x1000 :: uintptr_t) < 0x1000 + 0x1000" by simp
  from gap_refused [OF a boot_page_unmapped boot_page_locked, where len = "0x1000" and b = False
      and env = example_env and adv = Advise_dontneed]
    boot_page_ismapped align_up_boot_page b
  show ?thesis by simp
qed

text \<open>
  C6. The claim: when the requested range holds a byte no VMA covers, \<^verbatim>\<open>munmap\<close>
  returns \<open>EINVAL\<close> and \<^verbatim>\<open>msync\<close> and \<^verbatim>\<open>madvise\<close> return \<open>ENOMEM\<close>,
  before anything is unmapped, synced or depopulated. The code does not do this for
  an address in a superblock no CPU has claimed. After boot no VMA covers the page at
  \<open>0x3FFF00000000\<close>, the first of the sharded window; the owner byte of its
  superblock is \<open>FREE\<close>, which is no worker, and each of the three calls fails the
  assertion of \<^verbatim>\<open>vma_lock\<close>, which comes before the test of \<^verbatim>\<open>ismapped\<close>
  that would return the error.
\<close>

theorem gap_in_unclaimed_superblock_aborts:
  "\<not> mapped_byte (sb_mgr boot_state) 0x3FFF00000000 \<and>
   owner example_layout (sb_mgr boot_state) 0x3FFF00000000 = Inr FREE \<and>
   munmap example_layout example_env boot_state 0x3FFF00000000 0x1000 = Inl Assert_failed \<and>
   msync example_layout example_env boot_state 0x3FFF00000000 0x1000 = Inl Assert_failed \<and>
   advise example_layout example_env boot_state 0x3FFF00000000 0x1000 Advise_dontneed = Inl Assert_failed"
  by code_simp

text \<open>
  \<^verbatim>\<open>msync\<close> and \<^verbatim>\<open>madvise\<close> test the range as given, not the range of the
  page-aligned length they then work on: on the mapped state, whose VMA ends at
  \<open>0x3000\<close>, the calls for \<open>0x800\<close> bytes at \<open>0x2800\<close> go through, though the
  page-aligned range \<open>[0x2800, 0x3800)\<close> holds the unmapped byte \<open>0x3000\<close>.
\<close>

lemma unaligned_length_not_refused:
  "\<not> mapped_byte (sb_mgr mapped_state) 0x3000 \<and>
   (0x3000 :: u64) < 0x2800 + align_up 0x800 page_size \<and>
   msync example_layout example_env mapped_state 0x2800 0x800 = Inr (None, mapped_state) \<and>
   advise example_layout example_env mapped_state 0x2800 0x800 Advise_dontneed
     = Inr (None, emit mapped_state
                    [Operate_range (Unpopulate Initialized_anonymous_page_provider) 0x1000 0x2000 0x1000])"
  by code_simp

lemma step_addr: "(p :: u64) + of_nat (Suc i) * page_size = (p + 4096) + of_nat i * page_size"
  by (simp add: page_size_def distrib_right)

lemma mincore_bytes_Suc:
  assumes "(unat e - unat p + 4095) div 4096 = Suc ((unat e - unat (p + 4096) + 4095) div 4096)"
  shows "mincore_bytes env p e = (if safe_load env p then 1 else 0) # mincore_bytes env (p + 4096) e"
  unfolding mincore_bytes_def assms
  by (simp only: map_upt_Suc step_addr) simp

lemma mincore_loop_aligned:
  assumes "e AND 4095 = 0"
  shows "mincore_loop env p e vec = Some (vec @ mincore_bytes env p e)"
proof (induction "unat e - unat p" arbitrary: p vec rule: less_induct)
  case less
  show ?case
  proof (cases "p < e")
    case False
    then have "unat e - unat p = 0"
      by (simp add: word_less_nat_alt)
    then have "mincore_bytes env p e = []"
      by (simp add: mincore_bytes_def)
    with False show ?thesis
      by (subst mincore_loop.simps) simp
  next
    case True
    have nw: "unat (p + 4096) = unat p + 4096"
      by (rule aligned_no_wrap [OF assms True])
    from True have lt: "unat p < unat e"
      by (simp add: word_less_nat_alt)
    with nw have "unat e - unat (p + 4096) < unat e - unat p"
      by simp
    from less [OF this]
    have ih: "mincore_loop env (p + 4096) e (vec @ [if safe_load env p then 1 else 0])
        = Some ((vec @ [if safe_load env p then 1 else 0]) @ mincore_bytes env (p + 4096) e)" .
    have b: "mincore_bytes env p e = (if safe_load env p then 1 else 0) # mincore_bytes env (p + 4096) e"
      by (rule mincore_bytes_Suc) (rule page_count_step [OF lt nw])
    have "mincore_loop env p e vec = mincore_loop env (p + page_size) e (vec @ [if safe_load env p then 1 else 0])"
      using True by (subst mincore_loop.simps) simp
    also have "\<dots> = mincore_loop env (p + 4096) e (vec @ [if safe_load env p then 1 else 0])"
      by (simp add: page_size_def)
    also note ih
    finally show ?thesis
      by (simp add: b)
  qed
qed

lemma mincore_cases:
  assumes "vma_lock L (sb_mgr s) addr = Inr ()"
  shows "mincore L env s addr len =
     (if is_linear_mapped env addr len
      then Some (Inr (None, mincore_bytes env addr (align_up (addr + len) page_size)))
      else (case ismapped L (sb_mgr s) addr len of
              Inl ex \<Rightarrow> Some (Inl ex)
            | Inr mapped \<Rightarrow>
                if mapped then Some (Inr (None, mincore_bytes env addr (align_up (addr + len) page_size)))
                else Some (Inr (Some ENOMEM, []))))"
proof -
  have lp: "mincore_loop env addr (align_up (addr + len) page_size) []
      = Some (mincore_bytes env addr (align_up (addr + len) page_size))"
    using mincore_loop_aligned [OF align_up_aligned, of env addr "addr + len" "[]"] by simp
  show ?thesis
    by (simp add: mincore_def assms lp split: sum.splits)
qed

text \<open>
  Where the address's owner is a worker, so that \<^verbatim>\<open>vma_lock\<close> returns: a gap in
  a range that is not linear-mapped gives \<open>ENOMEM\<close> with nothing written (when the
  lookup of \<^verbatim>\<open>ismapped\<close> returns); a successful call means the range is
  linear-mapped or every byte of it is covered, and its bytes are one per 4K step
  from \<open>addr\<close> up to the page-aligned end; the only error returned is \<open>ENOMEM\<close>,
  with nothing written; and the loop always ends.
\<close>

lemma mincore_result:
  assumes "vma_lock L (sb_mgr s) addr = Inr ()"
  shows "(\<not> is_linear_mapped env addr len \<and> addr \<le> x \<and> x < addr + len \<and> \<not> mapped_byte (sb_mgr s) x
            \<and> ismapped L (sb_mgr s) addr len = Inr b
          \<longrightarrow> mincore L env s addr len = Some (Inr (Some ENOMEM, [])))
       \<and> (mincore L env s addr len = Some (Inr (None, vec))
          \<longrightarrow> (is_linear_mapped env addr len \<or>
               (\<forall>y. addr \<le> y \<and> y < addr + len \<longrightarrow> mapped_byte (sb_mgr s) y))
              \<and> vec = mincore_bytes env addr (align_up (addr + len) page_size))
       \<and> (mincore L env s addr len = Some (Inr (Some err, vec)) \<longrightarrow> err = ENOMEM \<and> vec = [])
       \<and> mincore L env s addr len \<noteq> None"
proof (intro conjI impI)
  assume a: "\<not> is_linear_mapped env addr len \<and> addr \<le> x \<and> x < addr + len \<and> \<not> mapped_byte (sb_mgr s) x
            \<and> ismapped L (sb_mgr s) addr len = Inr b"
  then have "\<not> b"
    using gap_not_mapped [of L "sb_mgr s" addr len b x] by simp
  with a show "mincore L env s addr len = Some (Inr (Some ENOMEM, []))"
    by (simp add: mincore_cases [OF assms])
next
  assume r: "mincore L env s addr len = Some (Inr (None, vec))"
  show "is_linear_mapped env addr len \<or> (\<forall>y. addr \<le> y \<and> y < addr + len \<longrightarrow> mapped_byte (sb_mgr s) y)"
  proof (cases "is_linear_mapped env addr len")
    case True
    then show ?thesis ..
  next
    case False
    with r have "ismapped L (sb_mgr s) addr len = Inr True"
      by (simp add: mincore_cases [OF assms] split: sum.splits if_splits)
    then show ?thesis
      using ismapped_covered [of L "sb_mgr s" addr len] by blast
  qed
  from r show "vec = mincore_bytes env addr (align_up (addr + len) page_size)"
    by (simp add: mincore_cases [OF assms] split: sum.splits if_splits)
next
  assume r: "mincore L env s addr len = Some (Inr (Some err, vec))"
  then show "err = ENOMEM" and "vec = []"
    by (simp_all add: mincore_cases [OF assms] split: sum.splits if_splits)
next
  show "mincore L env s addr len \<noteq> None"
    by (simp add: mincore_cases [OF assms] split: sum.splits)
qed

text \<open>After boot, for the page at \<open>0x1000\<close>.\<close>

lemma boot_page_not_linear: "\<not> is_linear_mapped example_env 0x1000 0x1000" by code_simp

lemma mincore_result_after_boot:
  "mincore example_layout example_env boot_state 0x1000 0x1000 = Some (Inr (Some ENOMEM, []))"
proof -
  have a: "(0x1000 :: uintptr_t) \<le> 0x1000" by simp
  have b: "(0x1000 :: uintptr_t) < 0x1000 + 0x1000" by simp
  from mincore_result [OF boot_page_locked, where env = example_env and len = "0x1000" and x = "0x1000" and b = False]
    boot_page_not_linear a b boot_page_unmapped boot_page_ismapped
  show ?thesis by simp
qed

text \<open>
  C10. The claim: \<^verbatim>\<open>mincore\<close> returns \<open>ENOMEM\<close> without writing any byte of
  \<open>vec\<close> whenever the range is neither linear-mapped nor entirely covered by VMAs.
  The code does not do this for an address in a superblock no CPU has claimed. After
  boot the page at \<open>0x3FFF00000000\<close> is neither linear-mapped nor covered by a
  VMA; the owner byte of its superblock is \<open>FREE\<close>, which is no worker, and the
  call fails the assertion of \<^verbatim>\<open>vma_lock\<close>, which \<^verbatim>\<open>mincore\<close> evaluates
  first, instead of returning \<open>ENOMEM\<close>.
\<close>

theorem mincore_in_unclaimed_superblock_aborts:
  "\<not> is_linear_mapped example_env 0x3FFF00000000 0x1000 \<and>
   \<not> mapped_byte (sb_mgr boot_state) 0x3FFF00000000 \<and>
   owner example_layout (sb_mgr boot_state) 0x3FFF00000000 = Inr FREE \<and>
   mincore example_layout example_env boot_state 0x3FFF00000000 0x1000 = Some (Inl Assert_failed)"
proof -
  have "vma_lock example_layout (sb_mgr boot_state) 0x3FFF00000000 = Inl Assert_failed"
    by code_simp
  then have "mincore example_layout example_env boot_state 0x3FFF00000000 0x1000 = Some (Inl Assert_failed)"
    by (simp add: mincore_def)
  moreover have "\<not> is_linear_mapped example_env 0x3FFF00000000 0x1000"
    by code_simp
  moreover have "\<not> mapped_byte (sb_mgr boot_state) 0x3FFF00000000"
    by code_simp
  moreover have "owner example_layout (sb_mgr boot_state) 0x3FFF00000000 = Inr FREE"
    by code_simp
  ultimately show ?thesis by simp
qed

text \<open>On the mapped state, \<^verbatim>\<open>mincore\<close> of the two pages of the VMA writes two bytes.\<close>

lemma mincore_mapped_example:
  "mincore example_layout example_env mapped_state 0x1000 0x2000 = Some (Inr (None, [1, 1]))"
proof -
  have l: "vma_lock example_layout (sb_mgr mapped_state) 0x1000 = Inr ()"
    by code_simp
  have "\<not> is_linear_mapped example_env 0x1000 0x2000"
    by code_simp
  moreover have "ismapped example_layout (sb_mgr mapped_state) 0x1000 0x2000 = Inr True"
    by code_simp
  moreover have "mincore_bytes example_env 0x1000 (align_up (0x1000 + 0x2000) page_size) = [1, 1]"
    by code_simp
  ultimately show ?thesis
    by (simp add: mincore_cases [OF l])
qed

section \<open>Properties of mprotect\<close>





lemma protect_step_contained:
  assumes "worker_at (sb_mgr s) wi = Inr w0" and "node_at (vma_list w0) (Some k) = Inr v0"
    and "contains start e v0" and "vma_perm v0 \<noteq> perm" and "validate_perm v0 perm = None"
  shows "protect_step L wi start e perm k s =
           Inr (None,
                emit (s\<lparr>sb_mgr := set_worker (sb_mgr s) wi
                           (w0\<lparr>vma_list := update_node (vma_list w0) k (\<lambda>x. vma_protect x perm)\<rparr>)\<rparr>)
                  [operate_range (Protection perm) (vma_start v0) (vma_start v0) (vma_size v0)])"
proof -
  have "split_vma v0 e = Inr (v0, None)" and "split_vma v0 start = Inr (v0, None)"
    using assms(3) by (simp_all add: split_vma_def contains_def)
  then have "split L (sb_mgr s) wi k e = Inr (sb_mgr s)"
    and "split L (sb_mgr s) wi k start = Inr (sb_mgr s)"
    by (simp_all add: split_def bind_err_def assms(1,2))
  then show ?thesis
    by (simp add: protect_step_def bind_err_def assms)
qed




end
